theory Spec2Isabelle
  imports Complex_Main "HOL-Library.AList"
begin

section \<open>JavaScript values\<close>

text \<open>
  Exceptions are values: a function that can throw returns \<open>error + 'a\<close>, with the
  exception on the left. \<open>TypeError\<close> is what the runtime throws on a property read of
  \<open>undefined\<close>; \<open>Error msg\<close> is \<open>new Error(msg)\<close>.
\<close>

datatype error = TypeError | Error string

text \<open>
  A JavaScript \<open>Map\<close> keeps its keys distinct and in insertion order: it is an association
  list, \<open>Map.set\<close> is \<open>AList.update\<close> (replace in place, or append), \<open>Map.delete\<close> is
  \<open>AList.delete\<close>, \<open>Map.get\<close> is \<open>map_of\<close>, \<open>Map.size\<close> is the length and
  \<open>Map.values()\<close> is \<open>map snd\<close>.

  A string is falsy exactly when it is empty; \<open>null\<close> and \<open>undefined\<close> are \<open>None\<close>.
\<close>

definition truthy :: "string option \<Rightarrow> bool" where
  "truthy s = (case s of None \<Rightarrow> False | Some v \<Rightarrow> v \<noteq> [])"

text \<open>
  Values the code only passes through (\<open>any\<close>, engine descriptors) are opaque strings;
  the empty string stands for the falsy ones, so that \<open>truthy\<close> is the test \<open>if (v)\<close> on
  them too.
\<close>

type_synonym blob = string

section \<open>Media Engine Pool: \<open>WorkerManager\<close>\<close>

text \<open>
  A mediasoup \<open>Worker\<close> is an object of the engine, compared by identity (\<open>===\<close>): it is
  modelled by its identity, and what the engine knows about it (\<open>worker.pid\<close>,
  \<open>worker.closed\<close>) is read through functions of the environment.
\<close>

type_synonym Worker = nat

record WorkerResourceUsage =
  ru_utime :: nat
  ru_stime :: nat

record WorkerInfo =
  worker :: Worker
  routerCount :: int
  pid :: nat
  usage :: "WorkerResourceUsage option"

text \<open>
  \<open>this.workers\<close> is a JavaScript array. An assignment \<open>this.workers[index] = v\<close> beyond its
  length extends it and leaves holes, so a slot is an option and \<open>None\<close> is a hole.
\<close>

record WorkerManager =
  workers :: "WorkerInfo option list"
  nextWorkerIndex :: nat

definition js_set :: "'a option list \<Rightarrow> nat \<Rightarrow> 'a \<Rightarrow> 'a option list" where
  "js_set xs i v =
     (if i < length xs then xs[i := Some v]
      else xs @ replicate (i - length xs) None @ [Some v])"

definition new_WorkerManager :: WorkerManager where
  "new_WorkerManager = \<lparr>workers = [], nextWorkerIndex = 0\<rparr>"

text \<open>
  \<open>initialize\<close>: \<open>created\<close> is the outcome of \<open>createWorker(i)\<close> for \<open>i = 0, ..., numWorkers - 1\<close>,
  in order (the new worker, or the exception of \<open>mediasoup.createWorker\<close>). An exception
  leaves the loop and rejects \<open>initialize\<close>.
\<close>

fun push_workers ::
  "(Worker \<Rightarrow> nat) \<Rightarrow> (error + Worker) list \<Rightarrow> WorkerInfo option list \<Rightarrow> error + WorkerInfo option list"
where
  "push_workers pid_of [] ws = Inr ws"
| "push_workers pid_of (Inl e # created) ws = Inl e"
| "push_workers pid_of (Inr w # created) ws =
     push_workers pid_of created
       (ws @ [Some \<lparr>worker = w, routerCount = 0, pid = pid_of w, usage = None\<rparr>])"

definition initialize ::
  "(Worker \<Rightarrow> nat) \<Rightarrow> (error + Worker) list \<Rightarrow> WorkerManager \<Rightarrow> error + WorkerManager"
where
  "initialize pid_of created wm =
     (case push_workers pid_of created (workers wm) of
        Inl e \<Rightarrow> Inl e
      | Inr ws \<Rightarrow> Inr (wm\<lparr>workers := ws\<rparr>))"

text \<open>
  \<open>handleWorkerDeath(index)\<close>, after its delay: \<open>created\<close> is the outcome of
  \<open>createWorker(index)\<close>. The \<open>catch\<close> only logs.
\<close>

definition handleWorkerDeath ::
  "(Worker \<Rightarrow> nat) \<Rightarrow> error + Worker \<Rightarrow> WorkerManager \<Rightarrow> nat \<Rightarrow> WorkerManager"
where
  "handleWorkerDeath pid_of created wm index =
     (case created of
        Inl e \<Rightarrow> wm
      | Inr newWorker \<Rightarrow>
          wm\<lparr>workers := js_set (workers wm) index
            \<lparr>worker = newWorker, routerCount = 0, pid = pid_of newWorker, usage = None\<rparr>\<rparr>)"

text \<open>
  \<open>this.workers.find((w) => w.worker === worker)\<close>: the first slot that holds the worker,
  with its index (the source mutates the element found). \<open>find\<close> visits a hole as
  \<open>undefined\<close>, and \<open>w.worker\<close> throws there.
\<close>

fun find_worker :: "WorkerInfo option list \<Rightarrow> Worker \<Rightarrow> error + (nat \<times> WorkerInfo) option" where
  "find_worker [] w = Inr None"
| "find_worker (None # ws) w = Inl TypeError"
| "find_worker (Some wi # ws) w =
     (if worker wi = w then Inr (Some (0, wi))
      else (case find_worker ws w of
              Inl e \<Rightarrow> Inl e
            | Inr None \<Rightarrow> Inr None
            | Inr (Some (i, found)) \<Rightarrow> Inr (Some (Suc i, found))))"

definition incrementRouterCount :: "WorkerManager \<Rightarrow> Worker \<Rightarrow> error + WorkerManager" where
  "incrementRouterCount wm w =
     (case find_worker (workers wm) w of
        Inl e \<Rightarrow> Inl e
      | Inr None \<Rightarrow> Inr wm
      | Inr (Some (i, workerInfo)) \<Rightarrow>
          Inr (wm\<lparr>workers :=
            (workers wm)[i := Some (workerInfo\<lparr>routerCount := routerCount workerInfo + 1\<rparr>)]\<rparr>))"

definition decrementRouterCount :: "WorkerManager \<Rightarrow> Worker \<Rightarrow> error + WorkerManager" where
  "decrementRouterCount wm w =
     (case find_worker (workers wm) w of
        Inl e \<Rightarrow> Inl e
      | Inr None \<Rightarrow> Inr wm
      | Inr (Some (i, workerInfo)) \<Rightarrow>
          (if routerCount workerInfo > 0
           then Inr (wm\<lparr>workers :=
             (workers wm)[i := Some (workerInfo\<lparr>routerCount := routerCount workerInfo - 1\<rparr>)]\<rparr>)
           else Inr wm))"

text \<open>
  \<open>getLeastLoadedWorker\<close>: the loop keeps \<open>minLoad\<close> (\<open>None\<close> is \<open>Infinity\<close>) and
  \<open>selectedIndex\<close>. The load score is a rational here; the source computes it in double
  precision. \<open>this.workers[selectedIndex].worker\<close> throws on an empty array.
\<close>

definition loadScore :: "WorkerInfo \<Rightarrow> rat" where
  "loadScore wi =
     of_int (routerCount wi) +
     (case usage wi of
        None \<Rightarrow> 0
      | Some u \<Rightarrow> of_nat (ru_utime u + ru_stime u) / 1000000)"

fun least_loaded_loop ::
  "(Worker \<Rightarrow> bool) \<Rightarrow> WorkerInfo option list \<Rightarrow> nat \<Rightarrow> rat option \<Rightarrow> nat \<Rightarrow> error + nat"
where
  "least_loaded_loop is_closed [] i minLoad selectedIndex = Inr selectedIndex"
| "least_loaded_loop is_closed (None # ws) i minLoad selectedIndex = Inl TypeError"
| "least_loaded_loop is_closed (Some wi # ws) i minLoad selectedIndex =
     (if is_closed (worker wi) then least_loaded_loop is_closed ws (Suc i) minLoad selectedIndex
      else if (case minLoad of None \<Rightarrow> True | Some m \<Rightarrow> loadScore wi < m)
      then least_loaded_loop is_closed ws (Suc i) (Some (loadScore wi)) i
      else least_loaded_loop is_closed ws (Suc i) minLoad selectedIndex)"

definition getLeastLoadedWorker :: "(Worker \<Rightarrow> bool) \<Rightarrow> WorkerManager \<Rightarrow> error + Worker" where
  "getLeastLoadedWorker is_closed wm =
     (case least_loaded_loop is_closed (workers wm) 0 None 0 of
        Inl e \<Rightarrow> Inl e
      | Inr selectedIndex \<Rightarrow>
          (if selectedIndex < length (workers wm)
           then (case workers wm ! selectedIndex of
                   None \<Rightarrow> Inl TypeError
                 | Some wi \<Rightarrow> Inr (worker wi))
           else Inl TypeError))"

text \<open>
  The resource monitor stores, every ten seconds, the usage the engine reports for each
  worker that is not closed: \<open>sample_usage\<close> is one such store, for the worker in slot
  \<open>i\<close>. \<open>shutdown\<close> closes the workers and empties the pool.
\<close>

definition sample_usage ::
  "(Worker \<Rightarrow> bool) \<Rightarrow> WorkerManager \<Rightarrow> nat \<Rightarrow> WorkerResourceUsage \<Rightarrow> WorkerManager"
where
  "sample_usage is_closed wm i u =
     (if i < length (workers wm)
      then (case workers wm ! i of
              None \<Rightarrow> wm
            | Some workerInfo \<Rightarrow>
                if is_closed (worker workerInfo) then wm
                else wm\<lparr>workers := (workers wm)[i := Some (workerInfo\<lparr>usage := Some u\<rparr>)]\<rparr>)
      else wm)"

definition shutdown :: "WorkerManager \<Rightarrow> WorkerManager" where
  "shutdown wm = wm\<lparr>workers := []\<rparr>"

text \<open>
  The life of a pool after \<open>initialize\<close>: router counts go up and down as routers are
  created and closed, workers die and are replaced, usage is sampled, and the pool may be
  shut down. An operation that throws leaves the pool as it was.
\<close>

datatype pool_event =
    Increment Worker
  | Decrement Worker
  | Died nat "error + Worker"
  | Sampled nat WorkerResourceUsage
  | Shutdown

fun pool_step ::
  "(Worker \<Rightarrow> nat) \<Rightarrow> (Worker \<Rightarrow> bool) \<Rightarrow> WorkerManager \<Rightarrow> pool_event \<Rightarrow> WorkerManager"
where
  "pool_step pid_of is_closed wm (Increment w) =
     (case incrementRouterCount wm w of Inl e \<Rightarrow> wm | Inr wm' \<Rightarrow> wm')"
| "pool_step pid_of is_closed wm (Decrement w) =
     (case decrementRouterCount wm w of Inl e \<Rightarrow> wm | Inr wm' \<Rightarrow> wm')"
| "pool_step pid_of is_closed wm (Died index created) = handleWorkerDeath pid_of created wm index"
| "pool_step pid_of is_closed wm (Sampled i u) = sample_usage is_closed wm i u"
| "pool_step pid_of is_closed wm Shutdown = shutdown wm"

definition pool_run ::
  "(Worker \<Rightarrow> nat) \<Rightarrow> (Worker \<Rightarrow> bool) \<Rightarrow> WorkerManager \<Rightarrow> pool_event list \<Rightarrow> WorkerManager"
where
  "pool_run pid_of is_closed wm evs = foldl (pool_step pid_of is_closed) wm evs"

definition counts_nonneg :: "WorkerInfo option list \<Rightarrow> bool" where
  "counts_nonneg ws = list_all (\<lambda>slot. case slot of None \<Rightarrow> True | Some wi \<Rightarrow> 0 \<le> routerCount wi) ws"

definition counts_zero :: "WorkerInfo option list \<Rightarrow> bool" where
  "counts_zero ws = list_all (\<lambda>slot. case slot of None \<Rightarrow> True | Some wi \<Rightarrow> routerCount wi = 0) ws"

definition count_at :: "WorkerManager \<Rightarrow> nat \<Rightarrow> int option" where
  "count_at wm i =
     (if i < length (workers wm) then map_option routerCount (workers wm ! i) else None)"

section \<open>Admission Controller: \<open>RateLimiterService\<close>\<close>

text \<open>
  The limiters are objects of the package rate-limiter-flexible, which is not part of the
  repository. A limiter counts, per key, the points consumed in the current window:
  \<open>consume(key, 1)\<close> adds one point to the key's record (a record that has expired is
  gone, and a new one starts a window of \<open>duration\<close> seconds, or never expires when
  \<open>duration\<close> is 0), and rejects when the
  points consumed exceed \<open>points\<close>; the point is counted in both cases. Both outcomes carry
  a \<open>RateLimiterRes\<close>. \<open>delete(key)\<close> drops the key's record. The Redis-backed limiter
  counts the same way in a shared store; the key prefixes, which only keep the limiters'
  keys apart in that store, are left out. Times are in milliseconds.
\<close>

record RateLimiterRecord =
  consumed :: nat
  expiresAt :: "nat option"

record RateLimiter =
  points :: nat
  duration :: nat
  storage :: "(string \<times> RateLimiterRecord) list"

record RateLimiterRes =
  msBeforeNext :: int
  remainingPoints :: nat
  consumedPoints :: nat

definition rl_get :: "RateLimiter \<Rightarrow> string \<Rightarrow> nat \<Rightarrow> RateLimiterRecord option" where
  "rl_get limiter key now =
     (case map_of (storage limiter) key of
        None \<Rightarrow> None
      | Some r \<Rightarrow>
          (case expiresAt r of
             None \<Rightarrow> Some r
           | Some e \<Rightarrow> if now < e then Some r else None))"

definition rl_res :: "RateLimiter \<Rightarrow> RateLimiterRecord \<Rightarrow> nat \<Rightarrow> RateLimiterRes" where
  "rl_res limiter r now =
     \<lparr>msBeforeNext = (case expiresAt r of None \<Rightarrow> - 1 | Some e \<Rightarrow> int e - int now),
      remainingPoints = points limiter - consumed r,
      consumedPoints = consumed r\<rparr>"

definition rl_consume ::
  "RateLimiter \<Rightarrow> string \<Rightarrow> nat \<Rightarrow> (RateLimiterRes + RateLimiterRes) \<times> RateLimiter"
where
  "rl_consume limiter key now =
     (let r = (case rl_get limiter key now of
                 None \<Rightarrow>
                   \<lparr>consumed = 1,
                    expiresAt = (if duration limiter * 1000 > 0
                                 then Some (now + duration limiter * 1000) else None)\<rparr>
               | Some r0 \<Rightarrow> r0\<lparr>consumed := consumed r0 + 1\<rparr>);
          limiter' = limiter\<lparr>storage := AList.update key r (storage limiter)\<rparr>
      in (if consumed r > points limiter then Inl (rl_res limiter r now) else Inr (rl_res limiter r now), limiter'))"

definition rl_delete :: "RateLimiter \<Rightarrow> string \<Rightarrow> RateLimiter" where
  "rl_delete limiter key = limiter\<lparr>storage := AList.delete key (storage limiter)\<rparr>"

text \<open>The points a key has consumed in its current window, and what is left of its budget.\<close>

definition rl_consumed :: "RateLimiter \<Rightarrow> string \<Rightarrow> nat \<Rightarrow> nat" where
  "rl_consumed limiter key now = (case rl_get limiter key now of None \<Rightarrow> 0 | Some r \<Rightarrow> consumed r)"

definition rl_remaining :: "RateLimiter \<Rightarrow> string \<Rightarrow> nat \<Rightarrow> nat" where
  "rl_remaining limiter key now = points limiter - rl_consumed limiter key now"

record RateLimiterConfig =
  connectionPoints :: nat
  connectionDuration :: nat
  connectionBlockDuration :: nat
  messagePoints :: nat
  messageDuration :: nat
  globalMessagePoints :: nat
  globalMessageDuration :: nat

definition DEFAULT_RATE_LIMIT_CONFIG :: RateLimiterConfig where
  "DEFAULT_RATE_LIMIT_CONFIG =
     \<lparr>connectionPoints = 20, connectionDuration = 60, connectionBlockDuration = 300,
      messagePoints = 100, messageDuration = 10,
      globalMessagePoints = 500, globalMessageDuration = 60\<rparr>"

text \<open>
  The service holds the per-connection limiter and the per-user limiter. The connection
  limiter (per address, used by \<open>checkConnection\<close> only) is not part of this model.
\<close>

record RateLimiterService =
  config :: RateLimiterConfig
  messageLimiter :: RateLimiter
  globalMessageLimiter :: RateLimiter

definition new_RateLimiterService :: "RateLimiterConfig \<Rightarrow> RateLimiterService" where
  "new_RateLimiterService cfg =
     \<lparr>config = cfg,
      messageLimiter = \<lparr>points = messagePoints cfg, duration = messageDuration cfg, storage = []\<rparr>,
      globalMessageLimiter =
        \<lparr>points = globalMessagePoints cfg, duration = globalMessageDuration cfg, storage = []\<rparr>\<rparr>"

record CheckResult =
  allowed :: bool
  retryAfter :: "nat option"

text \<open>\<open>Math.ceil(rateLimiterRes.msBeforeNext / 1000) || 1\<close>\<close>

definition retry_after :: "RateLimiterRes \<Rightarrow> nat" where
  "retry_after res =
     (let c = - ((- msBeforeNext res) div 1000) in if c = 0 then 1 else nat c)"

definition checkMessage ::
  "RateLimiterService \<Rightarrow> string \<Rightarrow> string option \<Rightarrow> nat \<Rightarrow> CheckResult \<times> RateLimiterService"
where
  "checkMessage svc connectionId userId now =
     (case rl_consume (messageLimiter svc) connectionId now of
        (Inl rateLimiterRes, ml) \<Rightarrow>
          (\<lparr>allowed = False, retryAfter = Some (retry_after rateLimiterRes)\<rparr>,
           svc\<lparr>messageLimiter := ml\<rparr>)
      | (Inr _, ml) \<Rightarrow>
          (if truthy userId then
             (case rl_consume (globalMessageLimiter svc) (the userId) now of
                (Inl rateLimiterRes, gl) \<Rightarrow>
                  (\<lparr>allowed = False, retryAfter = Some (retry_after rateLimiterRes)\<rparr>,
                   svc\<lparr>messageLimiter := ml, globalMessageLimiter := gl\<rparr>)
              | (Inr _, gl) \<Rightarrow>
                  (\<lparr>allowed = True, retryAfter = None\<rparr>,
                   svc\<lparr>messageLimiter := ml, globalMessageLimiter := gl\<rparr>))
           else (\<lparr>allowed = True, retryAfter = None\<rparr>, svc\<lparr>messageLimiter := ml\<rparr>)))"

definition reset :: "RateLimiterService \<Rightarrow> string \<Rightarrow> RateLimiterService" where
  "reset svc key =
     svc\<lparr>messageLimiter := rl_delete (messageLimiter svc) key,
         globalMessageLimiter := rl_delete (globalMessageLimiter svc) key\<rparr>"

definition getRemaining :: "RateLimiterService \<Rightarrow> string \<Rightarrow> nat \<Rightarrow> nat" where
  "getRemaining svc key now =
     (case rl_get (messageLimiter svc) key now of
        None \<Rightarrow> messagePoints (config svc)
      | Some r \<Rightarrow> remainingPoints (rl_res (messageLimiter svc) r now))"

section \<open>Numbers in strings\<close>

text \<open>
  \<open>decimal n\<close> is the string a template literal or \<open>toString()\<close> gives for the
  non-negative integer \<open>n\<close>. \<open>parseInt s\<close> is \<open>parseInt(s, 10)\<close>: leading white space, a
  sign, then the longest run of digits; \<open>None\<close> is \<open>NaN\<close>. The numbers of the source
  are doubles: both functions are the source's on integers below \<open>2 ^ 53\<close>, which is where
  ports and clock readings are; beyond, the source rounds and prints an exponent.
\<close>

function decimal :: "nat \<Rightarrow> string" where
  "decimal n =
     (if n < 10 then [''0123456789'' ! n]
      else decimal (n div 10) @ [''0123456789'' ! (n mod 10)])"
  by pat_completeness auto
termination
  by (relation "measure (\<lambda>n. n)") auto

declare decimal.simps [simp del]

definition is_digit :: "char \<Rightarrow> bool" where
  "is_digit c = (48 \<le> (of_char c :: nat) \<and> (of_char c :: nat) \<le> 57)"

definition is_space :: "char \<Rightarrow> bool" where
  "is_space c = ((of_char c :: nat) \<in> {9, 10, 11, 12, 13, 32})"

definition digits_value :: "string \<Rightarrow> nat" where
  "digits_value ds = foldl (\<lambda>a c. 10 * a + ((of_char c :: nat) - 48)) 0 ds"

definition parseInt :: "string \<Rightarrow> int option" where
  "parseInt s =
     (let s1 = dropWhile is_space s;
          negative = (s1 \<noteq> [] \<and> hd s1 = CHR ''-'');
          s2 = (if s1 \<noteq> [] \<and> (hd s1 = CHR ''-'' \<or> hd s1 = CHR ''+'') then tl s1 else s1);
          ds = takeWhile is_digit s2
      in if ds = [] then None
         else Some (if negative then - int (digits_value ds) else int (digits_value ds)))"

section \<open>Cluster Coordinator: the coordination store and \<open>SFUManager\<close>\<close>

text \<open>
  The store holds string keys, each with an optional time of expiry (\<open>SETEX\<close>), and the
  hash \<open>room:routers\<close>, whose values are the JSON of \<open>{nodeId, routerId}\<close>, kept here as
  the record itself. A key that has expired reads as absent. The store answers every
  command: a lost connection is outside the model. \<open>client\<close> is \<open>null\<close> until
  \<open>connect()\<close>, and every method does nothing, or returns \<open>null\<close>, on a \<open>null\<close> client.
\<close>

record RoomRouterInfo =
  nodeId :: string
  routerId :: string

record Redis =
  keys :: "(string \<times> string \<times> nat option) list"
  room_routers :: "(string \<times> RoomRouterInfo) list"

record RedisService =
  client :: "Redis option"

definition redis_get :: "RedisService \<Rightarrow> string \<Rightarrow> nat \<Rightarrow> string option" where
  "redis_get r key now =
     (case client r of
        None \<Rightarrow> None
      | Some c \<Rightarrow>
          (case map_of (keys c) key of
             None \<Rightarrow> None
           | Some (v, None) \<Rightarrow> Some v
           | Some (v, Some e) \<Rightarrow> if now < e then Some v else None))"

text \<open>\<open>set(key, value, ttlSeconds?)\<close>: \<open>SETEX\<close> when the time to live is truthy, \<open>SET\<close> otherwise.\<close>

definition redis_set :: "RedisService \<Rightarrow> string \<Rightarrow> string \<Rightarrow> nat option \<Rightarrow> nat \<Rightarrow> RedisService" where
  "redis_set r key v ttlSeconds now =
     (case client r of
        None \<Rightarrow> r
      | Some c \<Rightarrow>
          (case ttlSeconds of
             Some ttl \<Rightarrow>
               (if ttl \<noteq> 0
                then r\<lparr>client := Some (c\<lparr>keys := AList.update key (v, Some (now + ttl * 1000)) (keys c)\<rparr>)\<rparr>
                else r\<lparr>client := Some (c\<lparr>keys := AList.update key (v, None) (keys c)\<rparr>)\<rparr>)
           | None \<Rightarrow> r\<lparr>client := Some (c\<lparr>keys := AList.update key (v, None) (keys c)\<rparr>)\<rparr>))"

definition setRoomRouter :: "RedisService \<Rightarrow> string \<Rightarrow> RoomRouterInfo \<Rightarrow> RedisService" where
  "setRoomRouter r roomId info =
     (case client r of
        None \<Rightarrow> r
      | Some c \<Rightarrow> r\<lparr>client := Some (c\<lparr>room_routers := AList.update roomId info (room_routers c)\<rparr>)\<rparr>)"

definition getRoomRouter :: "RedisService \<Rightarrow> string \<Rightarrow> RoomRouterInfo option" where
  "getRoomRouter r roomId =
     (case client r of
        None \<Rightarrow> None
      | Some c \<Rightarrow> map_of (room_routers c) roomId)"

definition deleteRoomRouter :: "RedisService \<Rightarrow> string \<Rightarrow> RedisService" where
  "deleteRoomRouter r roomId =
     (case client r of
        None \<Rightarrow> r
      | Some c \<Rightarrow> r\<lparr>client := Some (c\<lparr>room_routers := AList.delete roomId (room_routers c)\<rparr>)\<rparr>)"

text \<open>
  \<open>updateNodeHealth(nodeId, stats)\<close>, which a node calls every five seconds: the statistics
  for 60 seconds and the heartbeat, \<open>Date.now().toString()\<close>, for 30 seconds.
\<close>

definition heartbeat_key :: "string \<Rightarrow> string" where
  "heartbeat_key node = ''sfu:node:'' @ node @ '':heartbeat''"

definition stats_key :: "string \<Rightarrow> string" where
  "stats_key node = ''sfu:node:'' @ node @ '':stats''"

definition updateNodeHealth :: "RedisService \<Rightarrow> string \<Rightarrow> string \<Rightarrow> nat \<Rightarrow> RedisService" where
  "updateNodeHealth r node statsJson now =
     redis_set (redis_set r (stats_key node) statsJson (Some 60) now)
       (heartbeat_key node) (decimal now) (Some 30) now"

record SFUNode =
  node_id :: string
  host :: string
  port :: "int option"
  isHealthy :: bool
  load :: int
  lastHealthCheck :: nat

record SFUManager =
  nodes :: "(string \<times> SFUNode) list"
  redisService :: RedisService

text \<open>
  \<open>initialize\<close>: one node per configured \<open>host:port\<close> string. \<open>nodeStr.split(':')\<close> gives the
  text before the first colon and, if there is a colon, the text up to the next one; an
  absent or empty port is 4000. A port that is not a number is \<open>NaN\<close>.
\<close>

definition split_host :: "string \<Rightarrow> string" where
  "split_host nodeStr = takeWhile (\<lambda>c. c \<noteq> CHR '':'') nodeStr"

definition split_port :: "string \<Rightarrow> string option" where
  "split_port nodeStr =
     (case dropWhile (\<lambda>c. c \<noteq> CHR '':'') nodeStr of
        [] \<Rightarrow> None
      | c # rest \<Rightarrow> Some (takeWhile (\<lambda>c. c \<noteq> CHR '':'') rest))"

definition port_string :: "int option \<Rightarrow> string" where
  "port_string p =
     (case p of
        None \<Rightarrow> ''NaN''
      | Some n \<Rightarrow> if n < 0 then ''-'' @ decimal (nat (- n)) else decimal (nat n))"

definition configured_node :: "string \<Rightarrow> nat \<Rightarrow> SFUNode" where
  "configured_node nodeStr now =
     (let host = split_host nodeStr;
          portStr = split_port nodeStr;
          port = parseInt (if truthy portStr then the portStr else ''4000'');
          nodeId = ''sfu-'' @ host @ ''-'' @ port_string port
      in \<lparr>node_id = nodeId, host = host, port = port, isHealthy = True, load = 0,
          lastHealthCheck = now\<rparr>)"

definition sfu_initialize :: "SFUManager \<Rightarrow> string list \<Rightarrow> nat \<Rightarrow> SFUManager" where
  "sfu_initialize m config_nodes now =
     foldl (\<lambda>m nodeStr.
        let node = configured_node nodeStr now
        in m\<lparr>nodes := AList.update (node_id node) node (nodes m)\<rparr>) m config_nodes"

text \<open>
  \<open>getBestNode\<close>: the healthy nodes, sorted by load (the sort is stable), and the first
  of them.
\<close>

definition getBestNode :: "SFUManager \<Rightarrow> SFUNode option" where
  "getBestNode m =
     (let healthyNodes = filter isHealthy (map snd (nodes m))
      in if length healthyNodes = 0 then None
         else Some (hd (sort_key load healthyNodes)))"

text \<open>
  \<open>allocateRoom\<close> is an \<open>async\<close> function: it asks the store for the room's placement,
  \<open>await\<close>s the reply, and runs on with it; other calls run in between.
  \<open>allocateRoom_resume\<close> is the part after that \<open>await\<close>, on the reply \<open>existing\<close> and on
  the manager as it is by then. Nothing but the \<open>return\<close> follows its last \<open>await\<close>, that of
  \<open>setRoomRouter\<close>. \<open>allocateRoom\<close> is a call with no other call between the reply and the
  rest. The \<open>iceServers\<close> of the result, a constant list read from the process
  environment, are left out.
\<close>

record RoomAllocation =
  node :: string
  alloc_routerId :: string

definition allocateRoom_resume ::
  "SFUManager \<Rightarrow> string \<Rightarrow> RoomRouterInfo option \<Rightarrow> nat \<Rightarrow> (error + RoomAllocation) \<times> SFUManager"
where
  "allocateRoom_resume m roomId existing now =
     (case existing of
        Some found \<Rightarrow> (Inr \<lparr>node = nodeId found, alloc_routerId = routerId found\<rparr>, m)
      | None \<Rightarrow>
          (case getBestNode m of
             None \<Rightarrow> (Inl (Error ''No available SFU nodes''), m)
           | Some best \<Rightarrow>
               (let newRouterId = ''router-'' @ roomId @ ''-'' @ decimal now
                in (Inr \<lparr>node = host best @ '':'' @ port_string (port best),
                         alloc_routerId = newRouterId\<rparr>,
                    m\<lparr>redisService := setRoomRouter (redisService m) roomId
                         \<lparr>nodeId = node_id best, routerId = newRouterId\<rparr>\<rparr>))))"

definition allocateRoom :: "SFUManager \<Rightarrow> string \<Rightarrow> nat \<Rightarrow> (error + RoomAllocation) \<times> SFUManager" where
  "allocateRoom m roomId now =
     allocateRoom_resume m roomId (getRoomRouter (redisService m) roomId) now"

definition releaseRoom :: "SFUManager \<Rightarrow> string \<Rightarrow> SFUManager" where
  "releaseRoom m roomId = m\<lparr>redisService := deleteRoomRouter (redisService m) roomId\<rparr>"

text \<open>
  \<open>checkHealth\<close>, for one node and then for all. \<open>json_routers\<close> stands for
  \<open>JSON.parse(statsStr)\<close> followed by \<open>stats.routers || 0\<close>: the number, or the exception of
  \<open>JSON.parse\<close>, which the \<open>catch\<close> turns into \<open>isHealthy = false\<close>.
\<close>

definition check_node :: "(string \<Rightarrow> error + int) \<Rightarrow> RedisService \<Rightarrow> nat \<Rightarrow> string \<Rightarrow> SFUNode \<Rightarrow> SFUNode" where
  "check_node json_routers r now key n =
     (let heartbeat = redis_get r (heartbeat_key key) now;
          n1 = (if truthy heartbeat
                then (case parseInt (the heartbeat) of
                        None \<Rightarrow> n\<lparr>isHealthy := False\<rparr>
                      | Some lastBeat \<Rightarrow> n\<lparr>isHealthy := (int now - lastBeat < 60000)\<rparr>)
                else n);
          statsStr = redis_get r (stats_key key) now
      in if truthy statsStr
         then (case json_routers (the statsStr) of
                 Inl e \<Rightarrow> n1\<lparr>isHealthy := False\<rparr>
               | Inr routers \<Rightarrow> n1\<lparr>load := routers, lastHealthCheck := now\<rparr>)
         else n1\<lparr>lastHealthCheck := now\<rparr>)"

definition checkHealth :: "(string \<Rightarrow> error + int) \<Rightarrow> SFUManager \<Rightarrow> nat \<Rightarrow> SFUManager" where
  "checkHealth json_routers m now =
     m\<lparr>nodes := map (\<lambda>(key, n). (key, check_node json_routers (redisService m) now key n)) (nodes m)\<rparr>"

section \<open>Session Directory: \<open>RoomManager\<close>\<close>

datatype MediaKind = audio | video

definition kind_string :: "MediaKind \<Rightarrow> string" where
  "kind_string k = (case k of audio \<Rightarrow> ''audio'' | video \<Rightarrow> ''video'')"

datatype Direction = send_direction | recv_direction

definition direction_string :: "Direction \<Rightarrow> string" where
  "direction_string d = (case d of send_direction \<Rightarrow> ''send'' | recv_direction \<Rightarrow> ''recv'')"

record AuthenticatedUser =
  user_id :: string
  email :: string
  organizationId :: "string option"
  user_role :: "string option"
  permissions :: "string list"

record ProducerState =
  producer_id :: string
  producer_kind :: MediaKind
  source :: string
  producer_paused :: bool

record ConsumerState =
  consumer_id :: string
  consumer_producerId :: string
  consumer_kind :: MediaKind
  consumer_paused :: bool

record RoomParticipant =
  participant_id :: string
  odUserId :: string
  displayName :: string
  role :: string
  rtpCapabilities :: "blob option"
  sendTransportId :: "string option"
  recvTransportId :: "string option"
  producers :: "(string \<times> ProducerState) list"
  consumers :: "(string \<times> ConsumerState) list"

record RoomState =
  room_id :: string
  sfuNode :: string
  room_routerId :: string
  routerRtpCapabilities :: blob
  participants :: "(string \<times> RoomParticipant) list"
  createdAt :: nat

text \<open>
  \<open>calls\<close> is not a field of the source: it lists, in order, the name of every method of
  the \<open>RoomManager\<close> that has been invoked, so that "the room manager was not called" can be
  stated. Every method starts by recording its name.
\<close>

record RoomManager =
  rooms :: "(string \<times> RoomState) list"
  sfuManager :: SFUManager
  calls :: "string list"

definition called :: "string \<Rightarrow> RoomManager \<Rightarrow> RoomManager" where
  "called name rm = rm\<lparr>calls := calls rm @ [name]\<rparr>"

record JoinResult =
  joined_participantId :: string
  joined_routerRtpCapabilities :: blob
  joined_sfuNode :: string

text \<open>
  \<open>joinRoom\<close>: first the room, found or newly allocated (the allocation can throw), then
  the participant. The readings of the clock within one call are taken to be one value.

  \<open>joinRoom\<close> and \<open>leaveRoom\<close> are \<open>async\<close>: the first \<open>await\<close>s \<open>allocateRoom\<close> between
  \<open>rooms.get\<close> and \<open>rooms.set\<close>, the second \<open>await\<close>s \<open>releaseRoom\<close> between
  \<open>participants.delete\<close> and \<open>rooms.delete\<close>. The definitions are the calls with no other
  call in between: the server's runs below handle each message to its end before the next
  one, which is one of the orders in which the source runs them.
\<close>

definition room_for_join :: "RoomManager \<Rightarrow> string \<Rightarrow> nat \<Rightarrow> (error + RoomState) \<times> RoomManager" where
  "room_for_join rm roomId now =
     (case map_of (rooms rm) roomId of
        Some room \<Rightarrow> (Inr room, rm)
      | None \<Rightarrow>
          (case allocateRoom (sfuManager rm) roomId now of
             (Inl e, m) \<Rightarrow> (Inl e, rm\<lparr>sfuManager := m\<rparr>)
           | (Inr allocation, m) \<Rightarrow>
               (let room = \<lparr>room_id = roomId, sfuNode = node allocation,
                            room_routerId = alloc_routerId allocation,
                            routerRtpCapabilities = ''{}'', participants = [],
                            createdAt = now\<rparr>
                in (Inr room, rm\<lparr>sfuManager := m, rooms := AList.update roomId room (rooms rm)\<rparr>))))"

definition joinRoom ::
  "RoomManager \<Rightarrow> string \<Rightarrow> AuthenticatedUser \<Rightarrow> string \<Rightarrow> string \<Rightarrow> nat \<Rightarrow> (error + JoinResult) \<times> RoomManager"
where
  "joinRoom rm0 roomId u role_name display now =
     (case room_for_join (called ''joinRoom'' rm0) roomId now of
        (Inl e, rm) \<Rightarrow> (Inl e, rm)
      | (Inr room, rm) \<Rightarrow>
          (let participantId = ''p-'' @ user_id u @ ''-'' @ decimal now;
               participant = \<lparr>participant_id = participantId, odUserId = user_id u,
                              displayName = display, role = role_name,
                              rtpCapabilities = None, sendTransportId = None,
                              recvTransportId = None, producers = [], consumers = []\<rparr>;
               room' = room\<lparr>participants := AList.update participantId participant (participants room)\<rparr>
           in (Inr \<lparr>joined_participantId = participantId,
                    joined_routerRtpCapabilities = routerRtpCapabilities room',
                    joined_sfuNode = sfuNode room'\<rparr>,
               rm\<lparr>rooms := AList.update roomId room' (rooms rm)\<rparr>)))"

definition leaveRoom :: "RoomManager \<Rightarrow> string \<Rightarrow> string \<Rightarrow> RoomManager" where
  "leaveRoom rm0 roomId participantId =
     (let rm = called ''leaveRoom'' rm0
      in case map_of (rooms rm) roomId of
           None \<Rightarrow> rm
         | Some room \<Rightarrow>
             (let room' = room\<lparr>participants := AList.delete participantId (participants room)\<rparr>
              in if length (participants room') = 0
                 then rm\<lparr>sfuManager := releaseRoom (sfuManager rm) roomId,
                         rooms := AList.delete roomId (rooms rm)\<rparr>
                 else rm\<lparr>rooms := AList.update roomId room' (rooms rm)\<rparr>))"

text \<open>
  \<open>room?.participants.get(participantId)\<close> followed by a change of the participant found:
  nothing happens when the room or the participant is absent.
\<close>

definition with_participant ::
  "RoomManager \<Rightarrow> string \<Rightarrow> string \<Rightarrow> (RoomParticipant \<Rightarrow> RoomParticipant) \<Rightarrow> RoomManager"
where
  "with_participant rm roomId participantId f =
     rm\<lparr>rooms := AList.map_entry roomId
       (\<lambda>room. room\<lparr>participants := AList.map_entry participantId f (participants room)\<rparr>)
       (rooms rm)\<rparr>"

definition setParticipantRtpCapabilities :: "RoomManager \<Rightarrow> string \<Rightarrow> string \<Rightarrow> blob \<Rightarrow> RoomManager" where
  "setParticipantRtpCapabilities rm0 roomId participantId caps =
     with_participant (called ''setParticipantRtpCapabilities'' rm0) roomId participantId
       (\<lambda>p. p\<lparr>rtpCapabilities := Some caps\<rparr>)"

record ParticipantInfo =
  info_id :: string
  info_odUserId :: string
  info_displayName :: string
  info_role :: string
  info_producers :: "(string \<times> MediaKind \<times> string) list"

definition participant_info :: "RoomParticipant \<Rightarrow> ParticipantInfo" where
  "participant_info p =
     \<lparr>info_id = participant_id p, info_odUserId = odUserId p,
      info_displayName = displayName p, info_role = role p,
      info_producers =
        map (\<lambda>prod. (producer_id prod, producer_kind prod, source prod)) (map snd (producers p))\<rparr>"

definition getParticipants :: "RoomManager \<Rightarrow> string \<Rightarrow> ParticipantInfo list \<times> RoomManager" where
  "getParticipants rm0 roomId =
     (let rm = called ''getParticipants'' rm0
      in case map_of (rooms rm) roomId of
           None \<Rightarrow> ([], rm)
         | Some room \<Rightarrow> (map participant_info (map snd (participants room)), rm))"

text \<open>
  The transport, producer and consumer operations are mocks in the source ("in production,
  this would call the SFU node API"): they make up an identifier, record it on the
  participant when there is one, and return mock data.
\<close>

record TransportOptions =
  transport_id :: string
  sctpParameters :: "blob option"

definition createTransport ::
  "RoomManager \<Rightarrow> string \<Rightarrow> string \<Rightarrow> Direction \<Rightarrow> blob option \<Rightarrow> nat \<Rightarrow> TransportOptions \<times> RoomManager"
where
  "createTransport rm0 roomId participantId direction sctpCapabilities now =
     (let rm = called ''createTransport'' rm0;
          transportId = ''transport-'' @ direction_string direction @ ''-'' @ participantId
                          @ ''-'' @ decimal now
      in (\<lparr>transport_id = transportId,
           sctpParameters = (if truthy sctpCapabilities then Some ''{}'' else None)\<rparr>,
          with_participant rm roomId participantId
            (\<lambda>p. if direction = send_direction then p\<lparr>sendTransportId := Some transportId\<rparr>
                  else p\<lparr>recvTransportId := Some transportId\<rparr>)))"

definition connectTransport :: "RoomManager \<Rightarrow> string \<Rightarrow> string \<Rightarrow> blob \<Rightarrow> RoomManager" where
  "connectTransport rm0 roomId transportId dtlsParameters = called ''connectTransport'' rm0"

text \<open>\<open>appData\<close> is opaque but for its \<open>source\<close>: \<open>appData?.source || kind\<close>.\<close>

record AppData =
  app_source :: "string option"
  app_rest :: blob

definition produce ::
  "RoomManager \<Rightarrow> string \<Rightarrow> string \<Rightarrow> string \<Rightarrow> MediaKind \<Rightarrow> blob \<Rightarrow> AppData option \<Rightarrow> nat
     \<Rightarrow> string \<times> RoomManager"
where
  "produce rm0 roomId participantId transportId kind rtpParameters appData now =
     (let rm = called ''produce'' rm0;
          producerId = ''producer-'' @ kind_string kind @ ''-'' @ participantId @ ''-'' @ decimal now;
          src = (case appData of
                   None \<Rightarrow> kind_string kind
                 | Some a \<Rightarrow> if truthy (app_source a) then the (app_source a) else kind_string kind)
      in (producerId,
          with_participant rm roomId participantId
            (\<lambda>p. p\<lparr>producers := AList.update producerId
                 \<lparr>producer_id = producerId, producer_kind = kind, source = src,
                  producer_paused = False\<rparr> (producers p)\<rparr>)))"

record ConsumerData =
  cd_id :: string
  cd_producerId :: string
  cd_kind :: MediaKind

text \<open>The signaling side's \<open>consume\<close> never returns \<open>null\<close>; the result is an option as in its type.\<close>

definition rm_consume ::
  "RoomManager \<Rightarrow> string \<Rightarrow> string \<Rightarrow> string \<Rightarrow> blob \<Rightarrow> nat \<Rightarrow> ConsumerData option \<times> RoomManager"
where
  "rm_consume rm0 roomId participantId producerId caps now =
     (let rm = called ''consume'' rm0;
          consumerId = ''consumer-'' @ producerId @ ''-'' @ participantId @ ''-'' @ decimal now
      in (Some \<lparr>cd_id = consumerId, cd_producerId = producerId, cd_kind = video\<rparr>,
          with_participant rm roomId participantId
            (\<lambda>p. p\<lparr>consumers := AList.update consumerId
                 \<lparr>consumer_id = consumerId, consumer_producerId = producerId,
                  consumer_kind = video, consumer_paused = True\<rparr> (consumers p)\<rparr>)))"

definition resumeConsumer :: "RoomManager \<Rightarrow> string \<Rightarrow> string \<Rightarrow> RoomManager" where
  "resumeConsumer rm0 roomId consumerId = called ''resumeConsumer'' rm0"

definition pauseProducer :: "RoomManager \<Rightarrow> string \<Rightarrow> string \<Rightarrow> RoomManager" where
  "pauseProducer rm0 roomId producerId = called ''pauseProducer'' rm0"

definition resumeProducer :: "RoomManager \<Rightarrow> string \<Rightarrow> string \<Rightarrow> RoomManager" where
  "resumeProducer rm0 roomId producerId = called ''resumeProducer'' rm0"

definition closeProducer :: "RoomManager \<Rightarrow> string \<Rightarrow> string \<Rightarrow> RoomManager" where
  "closeProducer rm0 roomId producerId =
     (let rm = called ''closeProducer'' rm0
      in rm\<lparr>rooms := AList.map_entry roomId
           (\<lambda>room. room\<lparr>participants :=
              map (\<lambda>(k, p). (k, p\<lparr>producers := AList.delete producerId (producers p)\<rparr>))
                (participants room)\<rparr>)
           (rooms rm)\<rparr>)"

definition setPreferredLayers :: "RoomManager \<Rightarrow> string \<Rightarrow> string \<Rightarrow> nat \<Rightarrow> nat option \<Rightarrow> RoomManager" where
  "setPreferredLayers rm0 roomId consumerId spatialLayer temporalLayer =
     called ''setPreferredLayers'' rm0"

definition getRouterRtpCapabilities :: "RoomManager \<Rightarrow> string \<Rightarrow> blob \<times> RoomManager" where
  "getRouterRtpCapabilities rm0 roomId =
     (let rm = called ''getRouterRtpCapabilities'' rm0
      in case map_of (rooms rm) roomId of
           None \<Rightarrow> (''{}'', rm)
         | Some room \<Rightarrow> (routerRtpCapabilities room, rm))"

text \<open>The roster of a room: its participants, and none when the directory has no such room.\<close>

definition roster :: "RoomManager \<Rightarrow> string \<Rightarrow> (string \<times> RoomParticipant) list" where
  "roster rm room = (case map_of (rooms rm) room of None \<Rightarrow> [] | Some r \<Rightarrow> participants r)"

section \<open>Protocol Gateway: \<open>SignalingServer\<close>\<close>

datatype ClientMessage =
    Authenticate string string
  | JoinRoom string string string "blob option"
  | LeaveRoom
  | CreateTransport Direction "blob option"
  | ConnectTransport string blob
  | Produce string MediaKind blob "AppData option"
  | Consume string blob
  | ResumeConsumer string
  | PauseProducer string
  | ResumeProducer string
  | CloseProducer string
  | SetPreferredLayers string nat "nat option"
  | GetRouterRtpCapabilities string
  | UnknownEvent string

text \<open>
  The events the server sends. \<open>ErrorEvent message code\<close> is
  \<open>{event: 'error', data: {message, code}}\<close>; the mock ICE and DTLS parameters of
  \<open>transport-created\<close> and the mock parameters of \<open>consumer-created\<close> are constants and are
  left out.
\<close>

datatype ServerMessage =
    Welcome string nat
  | Authenticated string string "string list"
  | RoomJoined string string blob "ParticipantInfo list" string
  | ParticipantJoined string string string string
  | ParticipantLeft string "string option"
  | TransportCreated string Direction "blob option"
  | TransportConnected string
  | Produced string
  | NewProducer string string string MediaKind "AppData option"
  | ConsumerCreated string string MediaKind
  | ConsumerResumed string
  | ProducerPaused string
  | ProducerResumed string
  | ProducerClosed string
  | RouterRtpCapabilities blob
  | ErrorEvent string "string option"

text \<open>
  A connection. The socket is its state (\<open>socket_open\<close>: \<open>readyState === WebSocket.OPEN\<close>)
  and what has been sent over it, in order. The three identifier sets are JavaScript
  \<open>Set\<close>s: lists without repetition, in insertion order.
\<close>

record ConnectedClient =
  client_id :: string
  socket_open :: bool
  sent :: "ServerMessage list"
  user :: "AuthenticatedUser option"
  roomId :: "string option"
  participantId :: "string option"
  transportIds :: "string list"
  producerIds :: "string list"
  consumerIds :: "string list"
  lastPing :: nat
  ip :: string

definition set_add :: "string \<Rightarrow> string list \<Rightarrow> string list" where
  "set_add x xs = (if x \<in> set xs then xs else xs @ [x])"

record SignalingServer =
  clients :: "(string \<times> ConnectedClient) list"
  roomManager :: RoomManager
  rateLimiter :: RateLimiterService

text \<open>
  The external authentication collaborator: \<open>verifyToken\<close> returns the user or throws,
  \<open>verifyOrganizationMembership\<close> answers yes or no.
\<close>

record AuthService =
  verifyToken :: "string \<Rightarrow> error + AuthenticatedUser"
  verifyOrganizationMembership :: "string \<Rightarrow> string \<Rightarrow> bool"

text \<open>
  The handlers change the client object they are given, which is the one registered in
  \<open>this.clients\<close> under \<open>cid\<close>: \<open>on_client cid f\<close> applies \<open>f\<close> to it. A handler gets
  \<open>cid\<close> and the client \<open>c\<close> as it is when the handler starts.
\<close>

definition on_client :: "string \<Rightarrow> (ConnectedClient \<Rightarrow> ConnectedClient) \<Rightarrow> SignalingServer \<Rightarrow> SignalingServer" where
  "on_client cid f s = s\<lparr>clients := AList.map_entry cid f (clients s)\<rparr>"

definition socket_send :: "ServerMessage \<Rightarrow> ConnectedClient \<Rightarrow> ConnectedClient" where
  "socket_send m c = (if socket_open c then c\<lparr>sent := sent c @ [m]\<rparr> else c)"

definition send :: "string \<Rightarrow> ServerMessage \<Rightarrow> SignalingServer \<Rightarrow> SignalingServer" where
  "send cid m s = on_client cid (socket_send m) s"

definition sendError :: "string \<Rightarrow> string \<Rightarrow> string option \<Rightarrow> SignalingServer \<Rightarrow> SignalingServer" where
  "sendError cid message code s = send cid (ErrorEvent message code) s"

definition broadcastToRoom :: "string \<Rightarrow> string \<Rightarrow> ServerMessage \<Rightarrow> SignalingServer \<Rightarrow> SignalingServer" where
  "broadcastToRoom room excludeClientId m s =
     s\<lparr>clients := map (\<lambda>(k, c).
          (k, if roomId c = Some room \<and> client_id c \<noteq> excludeClientId then socket_send m c else c))
        (clients s)\<rparr>"

text \<open>
  \<open>handleConnection\<close>, once the admission check has passed: the new client, not
  authenticated and in no room, and the welcome message.
\<close>

definition new_client :: "string \<Rightarrow> string \<Rightarrow> nat \<Rightarrow> ConnectedClient" where
  "new_client clientId address now =
     \<lparr>client_id = clientId, socket_open = True, sent = [], user = None, roomId = None,
      participantId = None, transportIds = [], producerIds = [], consumerIds = [],
      lastPing = now, ip = address\<rparr>"

definition handleConnection :: "SignalingServer \<Rightarrow> string \<Rightarrow> string \<Rightarrow> nat \<Rightarrow> SignalingServer" where
  "handleConnection s clientId address now =
     send clientId (Welcome clientId now)
       (s\<lparr>clients := AList.update clientId (new_client clientId address now) (clients s)\<rparr>)"

definition handleAuthenticate ::
  "AuthService \<Rightarrow> SignalingServer \<Rightarrow> string \<Rightarrow> ConnectedClient \<Rightarrow> string \<Rightarrow> string \<Rightarrow> SignalingServer"
where
  "handleAuthenticate auth s cid c token org =
     (case verifyToken auth token of
        Inl e \<Rightarrow> sendError cid ''Authentication failed'' (Some ''AUTH_FAILED'') s
      | Inr u \<Rightarrow>
          (if \<not> verifyOrganizationMembership auth (user_id u) org
           then sendError cid ''Not a member of this organization'' (Some ''AUTH_FAILED'') s
           else send cid (Authenticated (user_id u) org (permissions u))
                  (on_client cid (\<lambda>c. c\<lparr>user := Some u\<rparr>) s)))"

definition handleJoinRoom ::
  "SignalingServer \<Rightarrow> string \<Rightarrow> ConnectedClient \<Rightarrow> string \<Rightarrow> string \<Rightarrow> string \<Rightarrow> blob option \<Rightarrow> nat \<Rightarrow> SignalingServer"
where
  "handleJoinRoom s cid c room role_name display caps now =
     (case user c of
        None \<Rightarrow> sendError cid ''Not authenticated'' (Some ''NOT_AUTHENTICATED'') s
      | Some u \<Rightarrow>
          (case joinRoom (roomManager s) room u role_name display now of
             (Inl e, rm) \<Rightarrow>
               sendError cid ''Failed to join room'' (Some ''JOIN_FAILED'')
                 (s\<lparr>roomManager := rm\<rparr>)
           | (Inr roomInfo, rm) \<Rightarrow>
               (let pid = joined_participantId roomInfo;
                    s1 = on_client cid
                           (\<lambda>c. c\<lparr>roomId := Some room, participantId := Some pid\<rparr>)
                           (s\<lparr>roomManager := rm\<rparr>);
                    s2 = (if truthy caps
                          then s1\<lparr>roomManager :=
                                 setParticipantRtpCapabilities (roomManager s1) room pid (the caps)\<rparr>
                          else s1);
                    (ps, rm3) = getParticipants (roomManager s2) room;
                    s3 = send cid
                           (RoomJoined room pid (joined_routerRtpCapabilities roomInfo)
                              (filter (\<lambda>p. info_id p \<noteq> pid) ps) (joined_sfuNode roomInfo))
                           (s2\<lparr>roomManager := rm3\<rparr>)
                in broadcastToRoom room (client_id c)
                     (ParticipantJoined pid (user_id u) display role_name) s3)))"

text \<open>
  \<open>cleanupClientRoom\<close>: every producer of the client is closed, the participant leaves,
  the others are told, and the client's room state is cleared.
\<close>

definition cleanupClientRoom :: "SignalingServer \<Rightarrow> string \<Rightarrow> ConnectedClient \<Rightarrow> SignalingServer" where
  "cleanupClientRoom s cid c =
     (if \<not> truthy (roomId c) \<or> \<not> truthy (participantId c) then s
      else
        (let room = the (roomId c);
             pid = the (participantId c);
             rm1 = foldl (\<lambda>rm producerId. closeProducer rm room producerId)
                     (roomManager s) (producerIds c);
             rm2 = leaveRoom rm1 room pid;
             s1 = broadcastToRoom room (client_id c)
                    (ParticipantLeft pid (map_option user_id (user c)))
                    (s\<lparr>roomManager := rm2\<rparr>)
         in on_client cid
              (\<lambda>c. c\<lparr>roomId := None, participantId := None, transportIds := [],
                      producerIds := [], consumerIds := []\<rparr>) s1))"

definition handleLeaveRoom :: "SignalingServer \<Rightarrow> string \<Rightarrow> ConnectedClient \<Rightarrow> SignalingServer" where
  "handleLeaveRoom s cid c =
     (if \<not> truthy (roomId c) \<or> \<not> truthy (participantId c) then s
      else cleanupClientRoom s cid c)"

definition handleCreateTransport ::
  "SignalingServer \<Rightarrow> string \<Rightarrow> ConnectedClient \<Rightarrow> Direction \<Rightarrow> blob option \<Rightarrow> nat \<Rightarrow> SignalingServer"
where
  "handleCreateTransport s cid c direction sctpCapabilities now =
     (if \<not> truthy (roomId c) \<or> \<not> truthy (participantId c)
      then sendError cid ''Not in a room'' (Some ''NOT_IN_ROOM'') s
      else
        (let (transport, rm) =
               createTransport (roomManager s) (the (roomId c)) (the (participantId c))
                 direction sctpCapabilities now;
             s1 = on_client cid
                    (\<lambda>c. c\<lparr>transportIds := set_add (transport_id transport) (transportIds c)\<rparr>)
                    (s\<lparr>roomManager := rm\<rparr>)
         in send cid
              (TransportCreated (transport_id transport) direction (sctpParameters transport)) s1))"

definition handleConnectTransport ::
  "SignalingServer \<Rightarrow> string \<Rightarrow> ConnectedClient \<Rightarrow> string \<Rightarrow> blob \<Rightarrow> SignalingServer"
where
  "handleConnectTransport s cid c transportId dtlsParameters =
     (if \<not> truthy (roomId c)
      then sendError cid ''Not in a room'' (Some ''NOT_IN_ROOM'') s
      else send cid (TransportConnected transportId)
             (s\<lparr>roomManager :=
                connectTransport (roomManager s) (the (roomId c)) transportId dtlsParameters\<rparr>))"

text \<open>
  \<open>handleProduce\<close> reads \<open>client.user!.id\<close> for the broadcast: on a client without a user
  that throws, after the producer was made and announced to the client, and the
  \<open>catch\<close> sends the error.
\<close>

definition handleProduce ::
  "SignalingServer \<Rightarrow> string \<Rightarrow> ConnectedClient \<Rightarrow> string \<Rightarrow> MediaKind \<Rightarrow> blob \<Rightarrow> AppData option \<Rightarrow> nat
     \<Rightarrow> SignalingServer"
where
  "handleProduce s cid c transportId kind rtpParameters appData now =
     (if \<not> truthy (roomId c) \<or> \<not> truthy (participantId c)
      then sendError cid ''Not in a room'' (Some ''NOT_IN_ROOM'') s
      else
        (let (producerId, rm) =
               produce (roomManager s) (the (roomId c)) (the (participantId c)) transportId
                 kind rtpParameters appData now;
             s1 = on_client cid
                    (\<lambda>c. c\<lparr>producerIds := set_add producerId (producerIds c)\<rparr>)
                    (s\<lparr>roomManager := rm\<rparr>);
             s2 = send cid (Produced producerId) s1
         in case user c of
              None \<Rightarrow> sendError cid ''Failed to produce'' (Some ''PRODUCE_ERROR'') s2
            | Some u \<Rightarrow>
                broadcastToRoom (the (roomId c)) (client_id c)
                  (NewProducer producerId (user_id u) (the (participantId c)) kind appData) s2))"

text \<open>
  \<open>handleConsume\<close>: the guard, the room manager's \<open>consume\<close>, and then what the handler
  does with its result, \<open>consume_reply\<close>: a \<open>null\<close> is answered with the error event
  "Cannot consume this producer" and nothing is recorded; a consumer is recorded on the
  client and announced.
\<close>

definition consume_reply ::
  "SignalingServer \<Rightarrow> string \<Rightarrow> string \<Rightarrow> ConsumerData option \<Rightarrow> SignalingServer"
where
  "consume_reply s cid producerId result =
     (case result of
        None \<Rightarrow> sendError cid ''Cannot consume this producer'' (Some ''CONSUME_ERROR'') s
      | Some consumer \<Rightarrow>
          send cid (ConsumerCreated (cd_id consumer) producerId (cd_kind consumer))
            (on_client cid
               (\<lambda>c. c\<lparr>consumerIds := set_add (cd_id consumer) (consumerIds c)\<rparr>) s))"

definition handleConsume ::
  "SignalingServer \<Rightarrow> string \<Rightarrow> ConnectedClient \<Rightarrow> string \<Rightarrow> blob \<Rightarrow> nat \<Rightarrow> SignalingServer"
where
  "handleConsume s cid c producerId caps now =
     (if \<not> truthy (roomId c) \<or> \<not> truthy (participantId c)
      then sendError cid ''Not in a room'' (Some ''NOT_IN_ROOM'') s
      else
        (let (result, rm) =
               rm_consume (roomManager s) (the (roomId c)) (the (participantId c)) producerId caps now
         in consume_reply (s\<lparr>roomManager := rm\<rparr>) cid producerId result))"

definition handleResumeConsumer :: "SignalingServer \<Rightarrow> string \<Rightarrow> ConnectedClient \<Rightarrow> string \<Rightarrow> SignalingServer" where
  "handleResumeConsumer s cid c consumerId =
     (if \<not> truthy (roomId c) then s
      else send cid (ConsumerResumed consumerId)
             (s\<lparr>roomManager := resumeConsumer (roomManager s) (the (roomId c)) consumerId\<rparr>))"

definition handlePauseProducer :: "SignalingServer \<Rightarrow> string \<Rightarrow> ConnectedClient \<Rightarrow> string \<Rightarrow> SignalingServer" where
  "handlePauseProducer s cid c producerId =
     (if \<not> truthy (roomId c) then s
      else broadcastToRoom (the (roomId c)) (client_id c) (ProducerPaused producerId)
             (s\<lparr>roomManager := pauseProducer (roomManager s) (the (roomId c)) producerId\<rparr>))"

definition handleResumeProducer :: "SignalingServer \<Rightarrow> string \<Rightarrow> ConnectedClient \<Rightarrow> string \<Rightarrow> SignalingServer" where
  "handleResumeProducer s cid c producerId =
     (if \<not> truthy (roomId c) then s
      else broadcastToRoom (the (roomId c)) (client_id c) (ProducerResumed producerId)
             (s\<lparr>roomManager := resumeProducer (roomManager s) (the (roomId c)) producerId\<rparr>))"

definition handleCloseProducer :: "SignalingServer \<Rightarrow> string \<Rightarrow> ConnectedClient \<Rightarrow> string \<Rightarrow> SignalingServer" where
  "handleCloseProducer s cid c producerId =
     (if \<not> truthy (roomId c) then s
      else broadcastToRoom (the (roomId c)) (client_id c) (ProducerClosed producerId)
             (on_client cid
                (\<lambda>c. c\<lparr>producerIds := removeAll producerId (producerIds c)\<rparr>)
                (s\<lparr>roomManager := closeProducer (roomManager s) (the (roomId c)) producerId\<rparr>)))"

definition handleSetPreferredLayers ::
  "SignalingServer \<Rightarrow> string \<Rightarrow> ConnectedClient \<Rightarrow> string \<Rightarrow> nat \<Rightarrow> nat option \<Rightarrow> SignalingServer"
where
  "handleSetPreferredLayers s cid c consumerId spatialLayer temporalLayer =
     (if \<not> truthy (roomId c) then s
      else s\<lparr>roomManager :=
             setPreferredLayers (roomManager s) (the (roomId c)) consumerId spatialLayer temporalLayer\<rparr>)"

definition handleGetRouterRtpCapabilities ::
  "SignalingServer \<Rightarrow> string \<Rightarrow> ConnectedClient \<Rightarrow> string \<Rightarrow> SignalingServer"
where
  "handleGetRouterRtpCapabilities s cid c room =
     (let (capabilities, rm) = getRouterRtpCapabilities (roomManager s) room
      in send cid (RouterRtpCapabilities capabilities) (s\<lparr>roomManager := rm\<rparr>))"

text \<open>
  \<open>handleMessage\<close>, for the client registered under \<open>cid\<close>. An event that is none of the
  thirteen known ones is \<open>UnknownEvent\<close>.
\<close>

definition handleMessage ::
  "AuthService \<Rightarrow> SignalingServer \<Rightarrow> string \<Rightarrow> ClientMessage \<Rightarrow> nat \<Rightarrow> SignalingServer"
where
  "handleMessage auth s cid message now =
     (case map_of (clients s) cid of
        None \<Rightarrow> s
      | Some c \<Rightarrow>
          (case message of
             Authenticate token org \<Rightarrow> handleAuthenticate auth s cid c token org
           | JoinRoom room role_name display caps \<Rightarrow> handleJoinRoom s cid c room role_name display caps now
           | LeaveRoom \<Rightarrow> handleLeaveRoom s cid c
           | CreateTransport direction sctp \<Rightarrow> handleCreateTransport s cid c direction sctp now
           | ConnectTransport transportId dtls \<Rightarrow> handleConnectTransport s cid c transportId dtls
           | Produce transportId kind rtp appData \<Rightarrow> handleProduce s cid c transportId kind rtp appData now
           | Consume producerId caps \<Rightarrow> handleConsume s cid c producerId caps now
           | ResumeConsumer consumerId \<Rightarrow> handleResumeConsumer s cid c consumerId
           | PauseProducer producerId \<Rightarrow> handlePauseProducer s cid c producerId
           | ResumeProducer producerId \<Rightarrow> handleResumeProducer s cid c producerId
           | CloseProducer producerId \<Rightarrow> handleCloseProducer s cid c producerId
           | SetPreferredLayers consumerId spatial temporal \<Rightarrow>
               handleSetPreferredLayers s cid c consumerId spatial temporal
           | GetRouterRtpCapabilities room \<Rightarrow> handleGetRouterRtpCapabilities s cid c room
           | UnknownEvent name \<Rightarrow> sendError cid (''Unknown event: '' @ name) None s))"

text \<open>
  \<open>cleanupClient\<close>, and the socket's \<open>close\<close> handler, which runs it and forgets the client.
\<close>

definition cleanupClient :: "SignalingServer \<Rightarrow> string \<Rightarrow> ConnectedClient \<Rightarrow> SignalingServer" where
  "cleanupClient s cid c =
     (let s1 = cleanupClientRoom s cid c;
          s2 = s1\<lparr>rateLimiter := reset (rateLimiter s1) (client_id c)\<rparr>
      in case user c of
           None \<Rightarrow> s2
         | Some u \<Rightarrow> s2\<lparr>rateLimiter := reset (rateLimiter s2) (user_id u)\<rparr>)"

definition on_close :: "SignalingServer \<Rightarrow> string \<Rightarrow> SignalingServer" where
  "on_close s cid =
     (case map_of (clients s) cid of
        None \<Rightarrow> s
      | Some c \<Rightarrow>
          (let s1 = cleanupClient s cid c
           in s1\<lparr>clients := AList.delete cid (clients s1)\<rparr>))"

text \<open>
  What can be observed of a connection: the messages sent to it so far, and whether it is
  still registered with an open socket. \<open>unauthenticated_outside\<close> says that every
  connection without a user is in no room.
\<close>

definition sent_to :: "SignalingServer \<Rightarrow> string \<Rightarrow> ServerMessage list" where
  "sent_to s cid = (case map_of (clients s) cid of None \<Rightarrow> [] | Some c \<Rightarrow> sent c)"

definition connection_open :: "SignalingServer \<Rightarrow> string \<Rightarrow> bool" where
  "connection_open s cid = (case map_of (clients s) cid of None \<Rightarrow> False | Some c \<Rightarrow> socket_open c)"

definition outside :: "ConnectedClient \<Rightarrow> bool" where
  "outside c = (user c = None \<longrightarrow> roomId c = None \<and> participantId c = None)"

definition unauthenticated_outside :: "SignalingServer \<Rightarrow> bool" where
  "unauthenticated_outside s = list_all (\<lambda>(k, c). outside c) (clients s)"

text \<open>The server as its constructor leaves it: no client, no room.\<close>

definition new_SignalingServer :: "SFUManager \<Rightarrow> RateLimiterService \<Rightarrow> SignalingServer" where
  "new_SignalingServer sfu limiterService =
     \<lparr>clients = [],
      roomManager = \<lparr>rooms = [], sfuManager = sfu, calls = []\<rparr>,
      rateLimiter = limiterService\<rparr>"

text \<open>
  The socket's \<open>message\<close> handler: the rate check, then the parsed message (\<open>parsed\<close> is
  the outcome of \<open>JSON.parse\<close>) goes to \<open>handleMessage\<close>.
\<close>

definition on_message ::
  "AuthService \<Rightarrow> SignalingServer \<Rightarrow> string \<Rightarrow> error + ClientMessage \<Rightarrow> nat \<Rightarrow> SignalingServer"
where
  "on_message auth s cid parsed now =
     (case map_of (clients s) cid of
        None \<Rightarrow> s
      | Some c \<Rightarrow>
          (let (rateLimitResult, limiterService) =
                 checkMessage (rateLimiter s) cid (map_option user_id (user c)) now;
               s1 = s\<lparr>rateLimiter := limiterService\<rparr>
           in if \<not> allowed rateLimitResult
              then sendError cid
                     (''Rate limit exceeded. Retry after ''
                        @ (case retryAfter rateLimitResult of None \<Rightarrow> ''undefined'' | Some n \<Rightarrow> decimal n)
                        @ ''s'')
                     (Some ''RATE_LIMIT_EXCEEDED'') s1
              else (case parsed of
                      Inl e \<Rightarrow> sendError cid ''Invalid message format'' None s1
                    | Inr message \<Rightarrow> handleMessage auth s1 cid message now)))"

text \<open>
  The life of the server: connections are accepted, messages arrive, sockets close.
\<close>

datatype gateway_event =
    Connected string string nat
  | Received string "error + ClientMessage" nat
  | Closed string

fun gateway_step :: "AuthService \<Rightarrow> SignalingServer \<Rightarrow> gateway_event \<Rightarrow> SignalingServer" where
  "gateway_step auth s (Connected clientId address now) = handleConnection s clientId address now"
| "gateway_step auth s (Received cid parsed now) = on_message auth s cid parsed now"
| "gateway_step auth s (Closed cid) = on_close s cid"

definition gateway_run :: "AuthService \<Rightarrow> SignalingServer \<Rightarrow> gateway_event list \<Rightarrow> SignalingServer" where
  "gateway_run auth s evs = foldl (gateway_step auth) s evs"

section \<open>Routing Context Manager: \<open>RouterManager\<close>\<close>

text \<open>
  The objects of the media engine, with the fields the manager reads. What the engine
  decides or creates is given by the environment \<open>Engine\<close>: whether a worker is closed,
  the router a worker creates (or the exception), whether a router can consume a producer
  with given capabilities, and the consumer a transport creates (or the exception).
\<close>

record MsRouter =
  router_handle :: nat
  router_rtpCapabilities :: blob

record MsTransport =
  ms_transport_id :: string
  ms_direction :: Direction

record MsProducer =
  ms_producer_id :: string
  ms_producer_kind :: MediaKind
  ms_producer_rtpParameters :: blob
  ms_producer_appData :: blob

record MsConsumer =
  ms_consumer_id :: string
  ms_consumer_kind :: MediaKind
  ms_consumer_rtpParameters :: blob
  ms_consumer_appData :: blob

record Engine =
  worker_closed :: "Worker \<Rightarrow> bool"
  worker_pid :: "Worker \<Rightarrow> nat"
  worker_createRouter :: "Worker \<Rightarrow> error + MsRouter"
  canConsume :: "MsRouter \<Rightarrow> string \<Rightarrow> blob \<Rightarrow> bool"
  transport_consume :: "MsTransport \<Rightarrow> string \<Rightarrow> blob \<Rightarrow> blob \<Rightarrow> error + MsConsumer"

record RoomRouter =
  router_id :: string
  router_roomId :: string
  router :: MsRouter
  router_worker :: Worker
  router_transports :: "(string \<times> MsTransport) list"
  router_producers :: "(string \<times> MsProducer) list"
  router_consumers :: "(string \<times> MsConsumer) list"
  router_createdAt :: nat

record RouterManager =
  routers :: "(string \<times> RoomRouter) list"
  workerManager :: WorkerManager
  node_redis :: RedisService
  this_nodeId :: string

text \<open>
  \<open>createRouter(roomId)\<close> is an \<open>async\<close> function: it runs up to
  \<open>await worker.createRouter(...)\<close>, gives up control, and runs on when the engine has
  answered. Other calls run in between, so the two parts are two steps on the manager.

  \<open>createRouter_begin\<close> is the part before the \<open>await\<close>: the search for a router of the
  room and the choice of the worker. It changes nothing; the call either returns (the
  existing router, or the exception of \<open>getLeastLoadedWorker\<close>) or waits for the worker.

  \<open>createRouter_resume\<close> is the part after it, on the manager as it is by then: the
  exception of \<open>worker.createRouter\<close>, or the new entry of \<open>routers\<close>, the count, and the
  placement record (whose \<open>await\<close> is followed by the \<open>return\<close> alone). \<open>uuid\<close> is the
  value of \<open>uuidv4()\<close>. The result is the router's identifier and its capabilities.

  \<open>createRouter\<close> is a call with no other call between its two parts.
\<close>

datatype createRouter_stage =
    Returned "error + string \<times> blob"
  | AwaitingRouter Worker

definition createRouter_begin :: "Engine \<Rightarrow> RouterManager \<Rightarrow> string \<Rightarrow> createRouter_stage" where
  "createRouter_begin eng rm room =
     (case find (\<lambda>r. router_roomId r = room) (map snd (routers rm)) of
        Some existingRouter \<Rightarrow>
          Returned (Inr (router_id existingRouter, router_rtpCapabilities (router existingRouter)))
      | None \<Rightarrow>
          (case getLeastLoadedWorker (worker_closed eng) (workerManager rm) of
             Inl e \<Rightarrow> Returned (Inl e)
           | Inr w \<Rightarrow> AwaitingRouter w))"

definition createRouter_resume ::
  "Engine \<Rightarrow> RouterManager \<Rightarrow> string \<Rightarrow> Worker \<Rightarrow> string \<Rightarrow> nat
     \<Rightarrow> (error + string \<times> blob) \<times> RouterManager"
where
  "createRouter_resume eng rm room w uuid now =
     (case worker_createRouter eng w of
        Inl e \<Rightarrow> (Inl e, rm)
      | Inr new_router \<Rightarrow>
          (let roomRouter =
                 \<lparr>router_id = uuid, router_roomId = room, router = new_router,
                  router_worker = w, router_transports = [], router_producers = [],
                  router_consumers = [], router_createdAt = now\<rparr>;
               rm1 = rm\<lparr>routers := AList.update uuid roomRouter (routers rm)\<rparr>
           in case incrementRouterCount (workerManager rm1) w of
                Inl e \<Rightarrow> (Inl e, rm1)
              | Inr wm \<Rightarrow>
                  (Inr (uuid, router_rtpCapabilities new_router),
                   rm1\<lparr>workerManager := wm,
                       node_redis := setRoomRouter (node_redis rm1) room
                         \<lparr>nodeId = this_nodeId rm1, routerId = uuid\<rparr>\<rparr>)))"

definition createRouter ::
  "Engine \<Rightarrow> RouterManager \<Rightarrow> string \<Rightarrow> string \<Rightarrow> nat \<Rightarrow> (error + string \<times> blob) \<times> RouterManager"
where
  "createRouter eng rm room uuid now =
     (case createRouter_begin eng rm room of
        Returned res \<Rightarrow> (res, rm)
      | AwaitingRouter w \<Rightarrow> createRouter_resume eng rm room w uuid now)"

definition getRouterByRoomId :: "RouterManager \<Rightarrow> string \<Rightarrow> RoomRouter option" where
  "getRouterByRoomId rm room = find (\<lambda>r. router_roomId r = room) (map snd (routers rm))"

record ConsumerInfo =
  ci_id :: string
  ci_producerId :: string
  ci_kind :: MediaKind
  ci_rtpParameters :: blob
  ci_appData :: blob

text \<open>
  \<open>consume\<close>. The three lookups throw; a failed \<open>canConsume\<close> returns \<open>null\<close>, which is
  \<open>Inr None\<close>. The listeners it registers on the consumer run on later events of the
  engine and are not part of the call.
\<close>

definition consume ::
  "Engine \<Rightarrow> RouterManager \<Rightarrow> string \<Rightarrow> string \<Rightarrow> string \<Rightarrow> blob
     \<Rightarrow> (error + ConsumerInfo option) \<times> RouterManager"
where
  "consume eng rm rid transportId producerId caps =
     (case map_of (routers rm) rid of
        None \<Rightarrow> (Inl (Error (''Router not found: '' @ rid)), rm)
      | Some roomRouter \<Rightarrow>
          (case map_of (router_transports roomRouter) transportId of
             None \<Rightarrow> (Inl (Error (''Transport not found: '' @ transportId)), rm)
           | Some transport \<Rightarrow>
               (case map_of (router_producers roomRouter) producerId of
                  None \<Rightarrow> (Inl (Error (''Producer not found: '' @ producerId)), rm)
                | Some producer \<Rightarrow>
                    (if \<not> canConsume eng (router roomRouter) producerId caps
                     then (Inr None, rm)
                     else
                       (case transport_consume eng transport producerId caps
                               (ms_producer_appData producer) of
                          Inl e \<Rightarrow> (Inl e, rm)
                        | Inr consumer \<Rightarrow>
                            (Inr (Some \<lparr>ci_id = ms_consumer_id consumer,
                                        ci_producerId = producerId,
                                        ci_kind = ms_consumer_kind consumer,
                                        ci_rtpParameters = ms_consumer_rtpParameters consumer,
                                        ci_appData = ms_consumer_appData consumer\<rparr>),
                             rm\<lparr>routers := AList.update rid
                               (roomRouter\<lparr>router_consumers :=
                                  AList.update (ms_consumer_id consumer) consumer
                                    (router_consumers roomRouter)\<rparr>)
                               (routers rm)\<rparr>))))))"

text \<open>
  The \<open>died\<close> listener of a worker logs and runs \<open>handleWorkerDeath(index)\<close> on the pool.
  On the node, the pool is the one the \<open>RouterManager\<close> refers to; the listener reaches
  nothing else of the node.
\<close>

definition worker_died :: "Engine \<Rightarrow> error + Worker \<Rightarrow> RouterManager \<Rightarrow> nat \<Rightarrow> RouterManager" where
  "worker_died eng created rm index =
     rm\<lparr>workerManager := handleWorkerDeath (worker_pid eng) created (workerManager rm) index\<rparr>"

text \<open>At most one router per room: no two entries of \<open>routers\<close> are for the same room.\<close>

definition one_router_per_room :: "RouterManager \<Rightarrow> bool" where
  "one_router_per_room rm = distinct (map (\<lambda>(k, r). router_roomId r) (routers rm))"

text \<open>
  A node serves many calls at a time. Its state is the manager, the calls of
  \<open>createRouter\<close> that wait for their worker (the room and the worker of each), and what
  the finished calls returned. An event is a call that arrives and runs its first part,
  or a waiting call that runs on; calls are told apart by a name.
\<close>

record Node =
  node_manager :: RouterManager
  node_waiting :: "(string \<times> string \<times> Worker) list"
  node_returned :: "(string \<times> (error + string \<times> blob)) list"

datatype node_event =
    CreateRouterCalled string string
  | CreateRouterResumed string string nat

fun node_step :: "Engine \<Rightarrow> Node \<Rightarrow> node_event \<Rightarrow> Node" where
  "node_step eng n (CreateRouterCalled call room) =
     (case createRouter_begin eng (node_manager n) room of
        Returned res \<Rightarrow> n\<lparr>node_returned := node_returned n @ [(call, res)]\<rparr>
      | AwaitingRouter w \<Rightarrow> n\<lparr>node_waiting := AList.update call (room, w) (node_waiting n)\<rparr>)"
| "node_step eng n (CreateRouterResumed call uuid now) =
     (case map_of (node_waiting n) call of
        None \<Rightarrow> n
      | Some (room, w) \<Rightarrow>
          (let (res, rm) = createRouter_resume eng (node_manager n) room w uuid now
           in \<lparr>node_manager = rm,
               node_waiting = AList.delete call (node_waiting n),
               node_returned = node_returned n @ [(call, res)]\<rparr>))"

definition node_run :: "Engine \<Rightarrow> Node \<Rightarrow> node_event list \<Rightarrow> Node" where
  "node_run eng n evs = foldl (node_step eng) n evs"

definition new_Node :: "RouterManager \<Rightarrow> Node" where
  "new_Node rm = \<lparr>node_manager = rm, node_waiting = [], node_returned = []\<rparr>"

definition new_RouterManager :: "WorkerManager \<Rightarrow> RedisService \<Rightarrow> string \<Rightarrow> RouterManager" where
  "new_RouterManager wm store node_name =
     \<lparr>routers = [], workerManager = wm, node_redis = store, this_nodeId = node_name\<rparr>"

section \<open>Example states\<close>

text \<open>
  Concrete states on which the theorems below are tried: a pool of two workers, a node with
  one router, an idle node with no router, a limiter service in which connection \<open>c1\<close> has consumed 7 points and user
  \<open>u1\<close> all 500, a cluster of one healthy node with a connected and empty store, a server
  with one fresh connection \<open>c1\<close>, and a directory with room \<open>r\<close> and two participants.
\<close>

definition example_pool :: WorkerManager where
  "example_pool =
     \<lparr>workers = [Some \<lparr>worker = 1, routerCount = 0, pid = 101, usage = None\<rparr>,
                 Some \<lparr>worker = 2, routerCount = 4, pid = 102, usage = None\<rparr>],
      nextWorkerIndex = 0\<rparr>"

definition example_engine :: Engine where
  "example_engine =
     \<lparr>worker_closed = (\<lambda>w. False), worker_pid = (\<lambda>w. w + 100),
      worker_createRouter = (\<lambda>w. Inr \<lparr>router_handle = w, router_rtpCapabilities = ''caps''\<rparr>),
      canConsume = (\<lambda>r p c. c = ''vp8''),
      transport_consume = (\<lambda>t p c a. Inl (Error ''not connected''))\<rparr>"

definition example_router :: RoomRouter where
  "example_router =
     \<lparr>router_id = ''R1'', router_roomId = ''room1'',
      router = \<lparr>router_handle = 1, router_rtpCapabilities = ''caps''\<rparr>,
      router_worker = 1,
      router_transports = [(''T1'', \<lparr>ms_transport_id = ''T1'', ms_direction = recv_direction\<rparr>)],
      router_producers = [(''P1'', \<lparr>ms_producer_id = ''P1'', ms_producer_kind = video,
                                  ms_producer_rtpParameters = ''vp8'', ms_producer_appData = ''{}''\<rparr>)],
      router_consumers = [], router_createdAt = 0\<rparr>"

definition example_node :: RouterManager where
  "example_node =
     \<lparr>routers = [(''R1'', example_router)],
      workerManager = \<lparr>workers = [Some \<lparr>worker = 1, routerCount = 1, pid = 101, usage = None\<rparr>],
                        nextWorkerIndex = 0\<rparr>,
      node_redis = \<lparr>client = Some \<lparr>keys = [],
                      room_routers = [(''room1'', \<lparr>nodeId = ''n1'', routerId = ''R1''\<rparr>)]\<rparr>\<rparr>,
      this_nodeId = ''n1''\<rparr>"

definition example_idle_node :: Node where
  "example_idle_node =
     new_Node (new_RouterManager example_pool
       \<lparr>client = Some \<lparr>keys = [], room_routers = []\<rparr>\<rparr> ''n1'')"

definition example_limiters :: RateLimiterService where
  "example_limiters =
     \<lparr>config = DEFAULT_RATE_LIMIT_CONFIG,
      messageLimiter = \<lparr>points = 100, duration = 10,
        storage = [(''c1'', \<lparr>consumed = 7, expiresAt = Some 9000\<rparr>)]\<rparr>,
      globalMessageLimiter = \<lparr>points = 500, duration = 60,
        storage = [(''u1'', \<lparr>consumed = 500, expiresAt = Some 30000\<rparr>),
                   (''u2'', \<lparr>consumed = 9, expiresAt = Some 30000\<rparr>)]\<rparr>\<rparr>"

definition example_user :: AuthenticatedUser where
  "example_user =
     \<lparr>user_id = ''u1'', email = ''ann@example.org'', organizationId = None,
      user_role = None, permissions = [''view'']\<rparr>"

definition example_auth :: AuthService where
  "example_auth =
     \<lparr>verifyToken = (\<lambda>t. if t = ''tok'' then Inr example_user
                          else Inl (Error ''Authentication failed'')),
      verifyOrganizationMembership = (\<lambda>u org. True)\<rparr>"

definition example_sfu :: SFUManager where
  "example_sfu =
     \<lparr>nodes = [(''sfu-10.0.0.1-4000'',
        \<lparr>node_id = ''sfu-10.0.0.1-4000'', host = ''10.0.0.1'', port = Some 4000,
         isHealthy = True, load = 0, lastHealthCheck = 0\<rparr>)],
      redisService = \<lparr>client = Some \<lparr>keys = [], room_routers = []\<rparr>\<rparr>\<rparr>"

definition example_connected :: SignalingServer where
  "example_connected =
     gateway_run example_auth
       (new_SignalingServer example_sfu (new_RateLimiterService DEFAULT_RATE_LIMIT_CONFIG))
       [Connected ''c1'' ''10.0.0.9'' 0]"

definition example_client :: ConnectedClient where
  "example_client = (new_client ''c1'' ''10.0.0.9'' 0)\<lparr>sent := [Welcome ''c1'' 0]\<rparr>"

definition example_participant :: "string \<Rightarrow> string \<Rightarrow> (string \<times> ProducerState) list \<Rightarrow> RoomParticipant" where
  "example_participant p u prods =
     \<lparr>participant_id = p, odUserId = u, displayName = u, role = ''viewer'',
      rtpCapabilities = None, sendTransportId = None, recvTransportId = None,
      producers = prods, consumers = []\<rparr>"

definition example_directory :: RoomManager where
  "example_directory =
     \<lparr>rooms = [(''r'',
        \<lparr>room_id = ''r'', sfuNode = ''10.0.0.1:4000'', room_routerId = ''router-r-2'',
         routerRtpCapabilities = ''{}'',
         participants =
           [(''p1'', example_participant ''p1'' ''u1''
                [(''x'', \<lparr>producer_id = ''x'', producer_kind = video, source = ''camera'',
                          producer_paused = False\<rparr>)]),
            (''p2'', example_participant ''p2'' ''u2'' [])],
         createdAt = 2\<rparr>)],
      sfuManager = example_sfu
        \<lparr>redisService := \<lparr>client = Some \<lparr>keys = [],
           room_routers = [(''r'', \<lparr>nodeId = ''sfu-10.0.0.1-4000'', routerId = ''router-r-2''\<rparr>)]\<rparr>\<rparr>\<rparr>,
      calls = []\<rparr>"

definition example_in_room :: SignalingServer where
  "example_in_room =
     \<lparr>clients = [(''c1'', (new_client ''c1'' ''10.0.0.9'' 0)
          \<lparr>user := Some example_user, roomId := Some ''r'', participantId := Some ''p1'',
           producerIds := [''x'']\<rparr>)],
      roomManager = example_directory,
      rateLimiter = example_limiters\<rparr>"

section \<open>Properties of the worker pool\<close>

lemma find_worker_Some:
  "find_worker ws w = Inr (Some (i, wi)) \<Longrightarrow> i < length ws \<and> ws ! i = Some wi \<and> worker wi = w"
proof (induction ws arbitrary: i)
  case Nil
  then show ?case by simp
next
  case (Cons slot ws)
  show ?case
  proof (cases slot)
    case None
    with Cons.prems show ?thesis by simp
  next
    case (Some a)
    show ?thesis
    proof (cases "worker a = w")
      case True
      with Some Cons.prems show ?thesis by auto
    next
      case False
      with Some Cons.prems obtain j where j: "find_worker ws w = Inr (Some (j, wi))" "i = Suc j"
        by (auto split: sum.splits option.splits)
      from Cons.IH[OF j(1)] j(2) show ?thesis by simp
    qed
  qed
qed

lemma counts_nonneg_update:
  "counts_nonneg ws \<Longrightarrow> 0 \<le> routerCount v \<Longrightarrow> counts_nonneg (ws[i := Some v])"
  unfolding counts_nonneg_def list_all_iff
  by (auto dest!: set_update_subset_insert[THEN subsetD])

lemma counts_nonneg_js_set:
  "counts_nonneg ws \<Longrightarrow> 0 \<le> routerCount v \<Longrightarrow> counts_nonneg (js_set ws i v)"
  unfolding js_set_def
  by (auto simp: counts_nonneg_update) (auto simp: counts_nonneg_def list_all_iff)

lemma counts_nonneg_nth:
  "counts_nonneg ws \<Longrightarrow> i < length ws \<Longrightarrow> ws ! i = Some wi \<Longrightarrow> 0 \<le> routerCount wi"
  unfolding counts_nonneg_def list_all_length by fastforce

lemma push_workers_zero:
  "push_workers pid_of created ws = Inr ws' \<Longrightarrow> counts_zero ws \<Longrightarrow> counts_zero ws'"
proof (induction pid_of created ws rule: push_workers.induct)
  case (1 pid_of ws)
  then show ?case by simp
next
  case (2 pid_of e created ws)
  then show ?case by simp
next
  case (3 pid_of w created ws)
  then show ?case by (simp add: counts_zero_def)
qed

lemma counts_zero_nonneg: "counts_zero ws \<Longrightarrow> counts_nonneg ws"
  unfolding counts_zero_def counts_nonneg_def list_all_iff
  by (auto split: option.splits)

lemma incrementRouterCount_nonneg:
  assumes "counts_nonneg (workers wm)" and "incrementRouterCount wm w = Inr wm'"
  shows "counts_nonneg (workers wm')"
proof (cases "find_worker (workers wm) w")
  case (Inl e)
  with assms(2) show ?thesis by (simp add: incrementRouterCount_def)
next
  case (Inr found)
  show ?thesis
  proof (cases found)
    case None
    with Inr assms show ?thesis by (simp add: incrementRouterCount_def)
  next
    case (Some p)
    obtain i wi where p: "p = (i, wi)" by (cases p)
    from find_worker_Some[of "workers wm" w i wi] Inr Some p
    have at: "i < length (workers wm)" "workers wm ! i = Some wi" by simp_all
    from counts_nonneg_nth[OF assms(1) at] have "0 \<le> routerCount wi + 1" by simp
    then have "counts_nonneg ((workers wm)[i := Some (wi\<lparr>routerCount := routerCount wi + 1\<rparr>)])"
      using assms(1) by (simp add: counts_nonneg_update)
    with Inr Some p assms(2) show ?thesis by (auto simp: incrementRouterCount_def)
  qed
qed

lemma decrementRouterCount_nonneg:
  assumes "counts_nonneg (workers wm)" and "decrementRouterCount wm w = Inr wm'"
  shows "counts_nonneg (workers wm')"
proof (cases "find_worker (workers wm) w")
  case (Inl e)
  with assms(2) show ?thesis by (simp add: decrementRouterCount_def)
next
  case (Inr found)
  show ?thesis
  proof (cases found)
    case None
    with Inr assms show ?thesis by (simp add: decrementRouterCount_def)
  next
    case (Some p)
    obtain i wi where p: "p = (i, wi)" by (cases p)
    show ?thesis
    proof (cases "routerCount wi > 0")
      case True
      then have "counts_nonneg ((workers wm)[i := Some (wi\<lparr>routerCount := routerCount wi - 1\<rparr>)])"
        using assms(1) by (simp add: counts_nonneg_update)
      with Inr Some p True assms(2) show ?thesis by (auto simp: decrementRouterCount_def)
    next
      case False
      with Inr Some p assms show ?thesis by (auto simp: decrementRouterCount_def)
    qed
  qed
qed

lemma handleWorkerDeath_nonneg:
  "counts_nonneg (workers wm) \<Longrightarrow> counts_nonneg (workers (handleWorkerDeath pid_of created wm index))"
  by (cases created) (simp_all add: handleWorkerDeath_def counts_nonneg_js_set)

lemma sample_usage_nonneg:
  assumes "counts_nonneg (workers wm)"
  shows "counts_nonneg (workers (sample_usage is_closed wm i u))"
proof (cases "i < length (workers wm)")
  case False
  with assms show ?thesis by (simp add: sample_usage_def)
next
  case True
  show ?thesis
  proof (cases "workers wm ! i")
    case None
    with True assms show ?thesis by (simp add: sample_usage_def)
  next
    case (Some wi)
    from counts_nonneg_nth[OF assms True Some] have "0 \<le> routerCount (wi\<lparr>usage := Some u\<rparr>)"
      by simp
    from counts_nonneg_update[OF assms this] True Some assms show ?thesis
      by (simp add: sample_usage_def)
  qed
qed

lemma pool_step_nonneg:
  assumes "counts_nonneg (workers wm)"
  shows "counts_nonneg (workers (pool_step pid_of is_closed wm ev))"
proof (cases ev)
  case (Increment w)
  with assms incrementRouterCount_nonneg[OF assms] show ?thesis
    by (cases "incrementRouterCount wm w") simp_all
next
  case (Decrement w)
  with assms decrementRouterCount_nonneg[OF assms] show ?thesis
    by (cases "decrementRouterCount wm w") simp_all
next
  case (Died index created)
  with assms show ?thesis by (simp add: handleWorkerDeath_nonneg)
next
  case (Sampled i u)
  with assms show ?thesis by (simp add: sample_usage_nonneg)
next
  case Shutdown
  then show ?thesis by (simp add: shutdown_def counts_nonneg_def)
qed

lemma pool_run_nonneg:
  "counts_nonneg (workers wm) \<Longrightarrow> counts_nonneg (workers (pool_run pid_of is_closed wm evs))"
  unfolding pool_run_def
  by (induction evs arbitrary: wm) (auto simp: pool_step_nonneg)


lemma count_at_update:
  "i < length (workers wm) \<Longrightarrow>
   count_at (wm\<lparr>workers := (workers wm)[i := Some v]\<rparr>) j =
     (if j = i then Some (routerCount v) else count_at wm j)"
  by (simp add: count_at_def)

lemma count_at_js_set: "count_at (wm\<lparr>workers := js_set (workers wm) i v\<rparr>) i = Some (routerCount v)"
  by (simp add: count_at_def js_set_def nth_append)

text \<open>
  Claim C9. The router count tracked for a worker slot is never negative. After
  \<open>initialize\<close> every slot counts 0, and whatever sequence of increments, decrements,
  worker deaths, usage samples and shutdowns follows, every slot's count stays at or above 0. Where the worker is found,
  \<open>incrementRouterCount\<close> adds one to its slot and touches no other slot,
  \<open>decrementRouterCount\<close> subtracts one when the count is strictly positive and otherwise
  leaves it, and the replacement of a dead worker sets the count of its slot to 0.
\<close>

theorem routerCount_never_negative:
  "(initialize pid_of created new_WorkerManager = Inr started \<longrightarrow>
      counts_zero (workers started) \<and> counts_nonneg (workers (pool_run pid_of is_closed started evs)))
   \<and> (find_worker (workers wm) w = Inr (Some (i, wi)) \<longrightarrow>
        (\<exists>wm'. incrementRouterCount wm w = Inr wm'
           \<and> count_at wm' i = Some (routerCount wi + 1)
           \<and> (\<forall>j. j \<noteq> i \<longrightarrow> count_at wm' j = count_at wm j))
      \<and> (\<exists>wm'. decrementRouterCount wm w = Inr wm'
           \<and> count_at wm' i = Some (if 0 < routerCount wi then routerCount wi - 1 else routerCount wi)
           \<and> (\<forall>j. j \<noteq> i \<longrightarrow> count_at wm' j = count_at wm j)))
   \<and> count_at (handleWorkerDeath pid_of (Inr newWorker) wm index) index = Some 0"
proof (intro conjI impI)
  assume init: "initialize pid_of created new_WorkerManager = Inr started"
  then obtain ws where ws: "push_workers pid_of created [] = Inr ws" "workers started = ws"
    by (auto simp: initialize_def new_WorkerManager_def split: sum.splits)
  have "counts_zero []" by (simp add: counts_zero_def)
  with push_workers_zero[OF ws(1)] ws(2) show zero: "counts_zero (workers started)" by simp
  from pool_run_nonneg[OF counts_zero_nonneg[OF zero]]
  show "counts_nonneg (workers (pool_run pid_of is_closed started evs))" .
next
  assume found: "find_worker (workers wm) w = Inr (Some (i, wi))"
  from find_worker_Some[OF found] have at: "i < length (workers wm)" "workers wm ! i = Some wi"
    by simp_all
  have "incrementRouterCount wm w =
      Inr (wm\<lparr>workers := (workers wm)[i := Some (wi\<lparr>routerCount := routerCount wi + 1\<rparr>)]\<rparr>)"
    using found by (simp add: incrementRouterCount_def)
  then show "\<exists>wm'. incrementRouterCount wm w = Inr wm'
           \<and> count_at wm' i = Some (routerCount wi + 1)
           \<and> (\<forall>j. j \<noteq> i \<longrightarrow> count_at wm' j = count_at wm j)"
    using at(1) by (simp add: count_at_update)
  have "decrementRouterCount wm w =
      (if 0 < routerCount wi
       then Inr (wm\<lparr>workers := (workers wm)[i := Some (wi\<lparr>routerCount := routerCount wi - 1\<rparr>)]\<rparr>)
       else Inr wm)"
    using found by (simp add: decrementRouterCount_def)
  moreover have "count_at wm i = Some (routerCount wi)"
    using at by (simp add: count_at_def)
  ultimately show "\<exists>wm'. decrementRouterCount wm w = Inr wm'
           \<and> count_at wm' i = Some (if 0 < routerCount wi then routerCount wi - 1 else routerCount wi)
           \<and> (\<forall>j. j \<noteq> i \<longrightarrow> count_at wm' j = count_at wm j)"
    using at(1) by (simp add: count_at_update)
next
  show "count_at (handleWorkerDeath pid_of (Inr newWorker) wm index) index = Some 0"
    by (simp add: handleWorkerDeath_def count_at_js_set)
qed

theorem routerCount_never_negative_witness:
  "initialize (\<lambda>w. w + 100) [Inr 1, Inr 2] new_WorkerManager =
     Inr \<lparr>workers = [Some \<lparr>worker = 1, routerCount = 0, pid = 101, usage = None\<rparr>,
                      Some \<lparr>worker = 2, routerCount = 0, pid = 102, usage = None\<rparr>],
          nextWorkerIndex = 0\<rparr>
   \<and> counts_nonneg (workers (pool_run (\<lambda>w. w + 100) (\<lambda>w. False)
        \<lparr>workers = [Some \<lparr>worker = 1, routerCount = 0, pid = 101, usage = None\<rparr>,
                      Some \<lparr>worker = 2, routerCount = 0, pid = 102, usage = None\<rparr>],
          nextWorkerIndex = 0\<rparr>
        [Decrement 1, Increment 2, Sampled 0 \<lparr>ru_utime = 5, ru_stime = 7\<rparr>, Died 1 (Inr 3),
         Decrement 3, Decrement 3, Shutdown]))
   \<and> find_worker (workers example_pool) 2
       = Inr (Some (1, \<lparr>worker = 2, routerCount = 4, pid = 102, usage = None\<rparr>))
   \<and> (\<exists>wm'. incrementRouterCount example_pool 2 = Inr wm' \<and> count_at wm' 1 = Some 5)
   \<and> (\<exists>wm'. decrementRouterCount example_pool 2 = Inr wm' \<and> count_at wm' 1 = Some 3)
   \<and> find_worker (workers example_pool) 1
       = Inr (Some (0, \<lparr>worker = 1, routerCount = 0, pid = 101, usage = None\<rparr>))
   \<and> (\<exists>wm'. decrementRouterCount example_pool 1 = Inr wm' \<and> count_at wm' 0 = Some 0)"
proof -
  let ?started = "\<lparr>workers = [Some \<lparr>worker = 1, routerCount = 0, pid = 101, usage = None\<rparr>,
                      Some \<lparr>worker = 2, routerCount = 0, pid = 102, usage = None\<rparr>],
          nextWorkerIndex = 0\<rparr>"
  let ?evs = "[Decrement 1, Increment 2, Sampled 0 \<lparr>ru_utime = 5, ru_stime = 7\<rparr>, Died 1 (Inr 3),
         Decrement 3, Decrement 3, Shutdown]"
  let ?one = "\<lparr>worker = 1, routerCount = 0, pid = 101, usage = None\<rparr>"
  let ?two = "\<lparr>worker = 2, routerCount = 4, pid = 102, usage = None\<rparr>"
  have h1: "initialize (\<lambda>w. w + 100) [Inr 1, Inr 2] new_WorkerManager = Inr ?started"
    by (simp add: initialize_def new_WorkerManager_def)
  have h2: "find_worker (workers example_pool) 2 = Inr (Some (1, ?two))"
    by (simp add: example_pool_def)
  have h3: "find_worker (workers example_pool) 1 = Inr (Some (0, ?one))"
    by (simp add: example_pool_def)
  note run = routerCount_never_negative [where pid_of = "\<lambda>w. w + 100"
      and created = "[Inr 1, Inr 2]" and started = ?started and is_closed = "\<lambda>w. False"
      and evs = ?evs, THEN conjunct1]
  from run h1 have c1: "counts_nonneg (workers (pool_run (\<lambda>w. w + 100) (\<lambda>w. False) ?started ?evs))"
    by blast
  note at_two = routerCount_never_negative [where wm = example_pool and w = 2 and i = 1
      and wi = ?two, THEN conjunct2, THEN conjunct1]
  from at_two h2 obtain up where up: "incrementRouterCount example_pool 2 = Inr up"
      "count_at up 1 = Some (routerCount ?two + 1)"
    by blast
  from up(2) have "count_at up 1 = Some 5" by simp
  with up(1) have c2: "\<exists>wm'. incrementRouterCount example_pool 2 = Inr wm' \<and> count_at wm' 1 = Some 5"
    by blast
  from at_two h2 obtain down where down: "decrementRouterCount example_pool 2 = Inr down"
      "count_at down 1 = Some (if 0 < routerCount ?two then routerCount ?two - 1 else routerCount ?two)"
    by blast
  from down(2) have "count_at down 1 = Some 3" by simp
  with down(1) have c3: "\<exists>wm'. decrementRouterCount example_pool 2 = Inr wm' \<and> count_at wm' 1 = Some 3"
    by blast
  note at_one = routerCount_never_negative [where wm = example_pool and w = 1 and i = 0
      and wi = ?one, THEN conjunct2, THEN conjunct1]
  from at_one h3 obtain still where still: "decrementRouterCount example_pool 1 = Inr still"
      "count_at still 0 = Some (if 0 < routerCount ?one then routerCount ?one - 1 else routerCount ?one)"
    by blast
  from still(2) have "count_at still 0 = Some 0" by simp
  with still(1) have c4: "\<exists>wm'. decrementRouterCount example_pool 1 = Inr wm' \<and> count_at wm' 0 = Some 0"
    by blast
  from h1 c1 h2 c2 c3 h3 c4 show ?thesis by blast
qed

section \<open>Properties of the rate limiter\<close>

lemma rl_consumed_after_consume:
  "rl_consumed (snd (rl_consume limiter key now)) key now = rl_consumed limiter key now + 1"
  by (auto simp: rl_consume_def rl_consumed_def rl_get_def Let_def update_conv'
        split: option.splits)

text \<open>
  Claim C10. \<open>checkMessage\<close> consumes a point of the connection's counter before it
  consults the user's counter. So when the connection still has budget and the
  authenticated user's budget is exhausted, the message is denied, and the connection has
  nevertheless consumed one more point: its remaining budget is one less, and nothing
  gives the point back.
\<close>

theorem checkMessage_user_denial_consumes_connection_point:
  assumes "rl_consumed (messageLimiter svc) connectionId now < points (messageLimiter svc)"
      and "userId \<noteq> []"
      and "points (globalMessageLimiter svc) \<le> rl_consumed (globalMessageLimiter svc) userId now"
  shows "\<not> allowed (fst (checkMessage svc connectionId (Some userId) now))
      \<and> rl_consumed (messageLimiter (snd (checkMessage svc connectionId (Some userId) now)))
            connectionId now
          = rl_consumed (messageLimiter svc) connectionId now + 1
      \<and> rl_remaining (messageLimiter (snd (checkMessage svc connectionId (Some userId) now)))
            connectionId now + 1
          = rl_remaining (messageLimiter svc) connectionId now"
proof -
  obtain o1 ml where c1: "rl_consume (messageLimiter svc) connectionId now = (o1, ml)"
    by (cases "rl_consume (messageLimiter svc) connectionId now")
  obtain o2 gl where c2: "rl_consume (globalMessageLimiter svc) userId now = (o2, gl)"
    by (cases "rl_consume (globalMessageLimiter svc) userId now")
  from c1 assms(1) obtain res1 where o1: "o1 = Inr res1"
    by (auto simp: rl_consume_def rl_consumed_def Let_def split: option.splits if_splits)
  from c2 assms(3) obtain res2 where o2: "o2 = Inl res2"
    by (auto simp: rl_consume_def rl_consumed_def Let_def split: option.splits if_splits)
  have ml: "ml = snd (rl_consume (messageLimiter svc) connectionId now)"
    using c1 by simp
  have pts: "points ml = points (messageLimiter svc)"
    using c1 by (auto simp: rl_consume_def Let_def)
  have res: "checkMessage svc connectionId (Some userId) now =
      (\<lparr>allowed = False, retryAfter = Some (retry_after res2)\<rparr>,
       svc\<lparr>messageLimiter := ml, globalMessageLimiter := gl\<rparr>)"
    using c1 c2 o1 o2 assms(2) by (simp add: checkMessage_def truthy_def)
  have cons: "rl_consumed ml connectionId now = rl_consumed (messageLimiter svc) connectionId now + 1"
    unfolding ml by (rule rl_consumed_after_consume)
  from res cons pts assms(1) show ?thesis
    by (simp add: rl_remaining_def)
qed

theorem checkMessage_user_denial_consumes_connection_point_witness:
  "rl_consumed (messageLimiter example_limiters) ''c1'' 5000 = 7
   \<and> rl_consumed (globalMessageLimiter example_limiters) ''u1'' 5000 = 500
   \<and> \<not> allowed (fst (checkMessage example_limiters ''c1'' (Some ''u1'') 5000))
   \<and> rl_consumed (messageLimiter (snd (checkMessage example_limiters ''c1'' (Some ''u1'') 5000)))
        ''c1'' 5000 = 8"
proof -
  have v: "rl_consumed (messageLimiter example_limiters) ''c1'' 5000 = 7"
    by (simp add: example_limiters_def rl_consumed_def rl_get_def)
  have g: "rl_consumed (globalMessageLimiter example_limiters) ''u1'' 5000 = 500"
    by (simp add: example_limiters_def rl_consumed_def rl_get_def)
  have h1: "rl_consumed (messageLimiter example_limiters) ''c1'' 5000
      < points (messageLimiter example_limiters)"
    unfolding v by (simp add: example_limiters_def)
  have h2: "''u1'' \<noteq> []" by simp
  have h3: "points (globalMessageLimiter example_limiters)
      \<le> rl_consumed (globalMessageLimiter example_limiters) ''u1'' 5000"
    unfolding g by (simp add: example_limiters_def)
  from checkMessage_user_denial_consumes_connection_point [OF h1 h2 h3] v g
  show ?thesis by simp
qed

section \<open>The protocol gateway: sending and sockets\<close>

lemma map_of_map_entry_same:
  "map_of (AList.map_entry k f al) k = map_option f (map_of al k)"
  by (induction al) auto

lemma map_of_map_entry_other:
  "k' \<noteq> k \<Longrightarrow> map_of (AList.map_entry k f al) k' = map_of al k'"
  by (induction al) auto

lemma map_of_map_values:
  "map_of (map (\<lambda>(k, c). (k, g k c)) al) k' = map_option (g k') (map_of al k')"
  by (induction al) auto

lemma sent_to_send:
  "map_of (clients s) cid = Some c \<Longrightarrow>
   sent_to (send cid m s) cid = (if socket_open c then sent c @ [m] else sent c)"
  by (simp add: sent_to_def send_def on_client_def socket_send_def map_of_map_entry_same)

lemma sent_to_sendError:
  "map_of (clients s) cid = Some c \<Longrightarrow>
   sent_to (sendError cid message code s) cid =
     (if socket_open c then sent c @ [ErrorEvent message code] else sent c)"
  by (simp add: sendError_def sent_to_send)

lemma roomManager_send [simp]: "roomManager (send cid m s) = roomManager s"
  by (simp add: send_def on_client_def)

lemma roomManager_sendError [simp]: "roomManager (sendError cid message code s) = roomManager s"
  by (simp add: sendError_def)

lemma rateLimiter_send [simp]: "rateLimiter (send cid m s) = rateLimiter s"
  by (simp add: send_def on_client_def)

lemma rateLimiter_sendError [simp]: "rateLimiter (sendError cid message code s) = rateLimiter s"
  by (simp add: sendError_def)

text \<open>The sockets: no handler opens, closes or unregisters one.\<close>

lemma sockets_map_entry:
  assumes same: "\<And>c. socket_open (f c) = socket_open c"
  shows "map (\<lambda>(k, c). (k, socket_open c)) (AList.map_entry cid f al)
       = map (\<lambda>(k, c). (k, socket_open c)) al"
proof (induction al)
  case Nil
  show ?case by simp
next
  case (Cons p al)
  obtain k c where p: "p = (k, c)" by (cases p)
  from Cons.IH p show ?case by (simp add: same)
qed

lemma sockets_on_client:
  "(\<And>c. socket_open (f c) = socket_open c) \<Longrightarrow>
   map (\<lambda>(k, c). (k, socket_open c)) (clients (on_client cid f s))
     = map (\<lambda>(k, c). (k, socket_open c)) (clients s)"
  by (simp add: on_client_def sockets_map_entry)

lemma socket_open_socket_send [simp]: "socket_open (socket_send m c) = socket_open c"
  by (simp add: socket_send_def)

lemma sockets_send [simp]:
  "map (\<lambda>(k, c). (k, socket_open c)) (clients (send cid m s))
     = map (\<lambda>(k, c). (k, socket_open c)) (clients s)"
  by (simp add: send_def sockets_on_client)

lemma sockets_sendError [simp]:
  "map (\<lambda>(k, c). (k, socket_open c)) (clients (sendError cid message code s))
     = map (\<lambda>(k, c). (k, socket_open c)) (clients s)"
  by (simp add: sendError_def)

lemma sockets_broadcastToRoom [simp]:
  "map (\<lambda>(k, c). (k, socket_open c)) (clients (broadcastToRoom room ex m s))
     = map (\<lambda>(k, c). (k, socket_open c)) (clients s)"
  by (simp add: broadcastToRoom_def case_prod_unfold)

lemma sockets_cleanupClientRoom [simp]:
  "map (\<lambda>(k, c). (k, socket_open c)) (clients (cleanupClientRoom s cid c))
     = map (\<lambda>(k, c). (k, socket_open c)) (clients s)"
  by (simp add: cleanupClientRoom_def Let_def sockets_on_client)

lemma sockets_handleMessage:
  "map (\<lambda>(k, c). (k, socket_open c)) (clients (handleMessage auth s cid m now))
     = map (\<lambda>(k, c). (k, socket_open c)) (clients s)"
proof (cases "map_of (clients s) cid")
  case None
  then show ?thesis by (simp add: handleMessage_def)
next
  case (Some c)
  show ?thesis
  proof (cases m)
    case (Authenticate token org)
    with Some show ?thesis
      by (simp add: handleMessage_def handleAuthenticate_def sockets_on_client split: sum.splits)
  next
    case (JoinRoom room role_name display caps)
    with Some show ?thesis
      by (simp add: handleMessage_def handleJoinRoom_def Let_def sockets_on_client
          split: option.splits sum.splits prod.splits)
  next
    case LeaveRoom
    with Some show ?thesis by (simp add: handleMessage_def handleLeaveRoom_def)
  next
    case (CreateTransport direction sctp)
    with Some show ?thesis
      by (simp add: handleMessage_def handleCreateTransport_def Let_def sockets_on_client
          split: prod.splits)
  next
    case (ConnectTransport transportId dtls)
    with Some show ?thesis by (simp add: handleMessage_def handleConnectTransport_def)
  next
    case (Produce transportId kind rtp appData)
    with Some show ?thesis
      by (simp add: handleMessage_def handleProduce_def Let_def sockets_on_client
          split: prod.splits option.splits)
  next
    case (Consume producerId caps)
    with Some show ?thesis
      by (simp add: handleMessage_def handleConsume_def consume_reply_def Let_def
          sockets_on_client split: prod.splits option.splits)
  next
    case (ResumeConsumer consumerId)
    with Some show ?thesis by (simp add: handleMessage_def handleResumeConsumer_def)
  next
    case (PauseProducer producerId)
    with Some show ?thesis by (simp add: handleMessage_def handlePauseProducer_def)
  next
    case (ResumeProducer producerId)
    with Some show ?thesis by (simp add: handleMessage_def handleResumeProducer_def)
  next
    case (CloseProducer producerId)
    with Some show ?thesis
      by (simp add: handleMessage_def handleCloseProducer_def sockets_on_client)
  next
    case (SetPreferredLayers consumerId spatial temporal)
    with Some show ?thesis by (simp add: handleMessage_def handleSetPreferredLayers_def)
  next
    case (GetRouterRtpCapabilities room)
    with Some show ?thesis
      by (simp add: handleMessage_def handleGetRouterRtpCapabilities_def split: prod.splits)
  next
    case (UnknownEvent name)
    with Some show ?thesis by (simp add: handleMessage_def)
  qed
qed

lemma connection_open_sockets:
  "connection_open s cid = (map_of (map (\<lambda>(k, c). (k, socket_open c)) (clients s)) cid = Some True)"
  by (auto simp: connection_open_def map_of_map_values[of "\<lambda>k c. socket_open c"] split: option.splits)

lemma connection_stays_open:
  "connection_open (handleMessage auth s cid m now) cid = connection_open s cid"
  by (simp add: connection_open_sockets sockets_handleMessage)

text \<open>The example server has one client, \<open>c1\<close>: connected, without a user, in no room.\<close>

lemma example_connected_client:
  "map_of (clients example_connected) ''c1'' = Some example_client"
  by (simp add: example_connected_def example_client_def gateway_run_def handleConnection_def
      new_SignalingServer_def send_def on_client_def socket_send_def new_client_def)

lemma example_connected_roomManager:
  "roomManager example_connected = \<lparr>rooms = [], sfuManager = example_sfu, calls = []\<rparr>"
  by (simp add: example_connected_def gateway_run_def handleConnection_def
      new_SignalingServer_def send_def on_client_def)

section \<open>Properties of the routing context manager\<close>

text \<open>
  Claim C3. When the router, the transport and the producer are found and the router's
  \<open>canConsume\<close> check fails for the consumer's capabilities, \<open>consume\<close> does not throw: it
  returns \<open>null\<close>, and the manager's state after the call (every router with its transports,
  producers and consumers) is the state before it. The signaling handler takes a \<open>null\<close>
  result as "cannot consume": it tells the client so in an error event, records no consumer
  on the client and leaves the room manager alone.
\<close>

theorem consume_incompatible_returns_null:
  assumes "map_of (routers rm) rid = Some roomRouter"
      and "map_of (router_transports roomRouter) transportId = Some transport"
      and "map_of (router_producers roomRouter) producerId = Some producer"
      and "\<not> canConsume eng (router roomRouter) producerId caps"
  shows "consume eng rm rid transportId producerId caps = (Inr None, rm)
     \<and> (map_of (clients s) cid = Some c \<longrightarrow>
          sent_to (consume_reply s cid producerId None) cid
            = (if socket_open c
               then sent c @ [ErrorEvent ''Cannot consume this producer'' (Some ''CONSUME_ERROR'')]
               else sent c)
          \<and> map_option consumerIds (map_of (clients (consume_reply s cid producerId None)) cid)
              = Some (consumerIds c)
          \<and> roomManager (consume_reply s cid producerId None) = roomManager s)"
proof (intro conjI impI)
  show "consume eng rm rid transportId producerId caps = (Inr None, rm)"
    using assms by (simp add: consume_def)
next
  assume reg: "map_of (clients s) cid = Some c"
  then show "sent_to (consume_reply s cid producerId None) cid
            = (if socket_open c
               then sent c @ [ErrorEvent ''Cannot consume this producer'' (Some ''CONSUME_ERROR'')]
               else sent c)"
    by (simp add: consume_reply_def sent_to_sendError)
  from reg show "map_option consumerIds (map_of (clients (consume_reply s cid producerId None)) cid)
              = Some (consumerIds c)"
    by (simp add: consume_reply_def sendError_def send_def on_client_def socket_send_def
        map_of_map_entry_same)
  show "roomManager (consume_reply s cid producerId None) = roomManager s"
    by (simp add: consume_reply_def)
qed

theorem consume_incompatible_returns_null_witness:
  "\<not> canConsume example_engine (router example_router) ''P1'' ''h264''
   \<and> consume example_engine example_node ''R1'' ''T1'' ''P1'' ''h264'' = (Inr None, example_node)
   \<and> sent_to (consume_reply example_connected ''c1'' ''P1'' None) ''c1''
       = [Welcome ''c1'' 0, ErrorEvent ''Cannot consume this producer'' (Some ''CONSUME_ERROR'')]
   \<and> roomManager (consume_reply example_connected ''c1'' ''P1'' None)
       = roomManager example_connected"
proof -
  have h1: "map_of (routers example_node) ''R1'' = Some example_router"
    by (simp add: example_node_def)
  have h2: "map_of (router_transports example_router) ''T1''
      = Some \<lparr>ms_transport_id = ''T1'', ms_direction = recv_direction\<rparr>"
    by (simp add: example_router_def)
  have h3: "map_of (router_producers example_router) ''P1''
      = Some \<lparr>ms_producer_id = ''P1'', ms_producer_kind = video,
              ms_producer_rtpParameters = ''vp8'', ms_producer_appData = ''{}''\<rparr>"
    by (simp add: example_router_def)
  have h4: "\<not> canConsume example_engine (router example_router) ''P1'' ''h264''"
    by (simp add: example_engine_def)
  note t = consume_incompatible_returns_null [OF h1 h2 h3 h4,
      where s = example_connected and cid = "''c1''" and c = example_client]
  from t have c1: "consume example_engine example_node ''R1'' ''T1'' ''P1'' ''h264''
      = (Inr None, example_node)"
    by blast
  from t example_connected_client
  have "sent_to (consume_reply example_connected ''c1'' ''P1'' None) ''c1''
      = (if socket_open example_client
         then sent example_client @ [ErrorEvent ''Cannot consume this producer'' (Some ''CONSUME_ERROR'')]
         else sent example_client)"
    and c3: "roomManager (consume_reply example_connected ''c1'' ''P1'' None)
      = roomManager example_connected"
    by blast+
  then have c2: "sent_to (consume_reply example_connected ''c1'' ''P1'' None) ''c1''
      = [Welcome ''c1'' 0, ErrorEvent ''Cannot consume this producer'' (Some ''CONSUME_ERROR'')]"
    by (simp add: example_client_def new_client_def)
  from h4 c1 c2 c3 show ?thesis by blast
qed

text \<open>
  Claim C4, as the code has it. When a worker dies, the pool replaces it in its slot by the
  new worker with a router count of 0, or leaves the pool as it is when no new worker could
  be created. The routers of the node, among them those of the dead worker, and the
  placement records in the coordination store stay as they are.
\<close>

theorem worker_death_only_restarts:
  "routers (worker_died eng created rm index) = routers rm
   \<and> node_redis (worker_died eng created rm index) = node_redis rm
   \<and> (\<forall>e. created = Inl e \<longrightarrow> worker_died eng created rm index = rm)
   \<and> (\<forall>w. created = Inr w \<longrightarrow>
         workers (workerManager (worker_died eng created rm index)) =
           js_set (workers (workerManager rm)) index
             \<lparr>worker = w, routerCount = 0, pid = worker_pid eng w, usage = None\<rparr>)"
  by (cases created) (simp_all add: worker_died_def handleWorkerDeath_def)

theorem worker_death_only_restarts_witness:
  "workers (workerManager (worker_died example_engine (Inr 2) example_node 0))
     = [Some \<lparr>worker = 2, routerCount = 0, pid = 102, usage = None\<rparr>]
   \<and> worker_died example_engine (Inl (Error ''spawn failed'')) example_node 0 = example_node"
proof -
  from worker_death_only_restarts [of example_engine "Inr 2" example_node 0]
  have "workers (workerManager (worker_died example_engine (Inr 2) example_node 0))
      = js_set (workers (workerManager example_node)) 0
          \<lparr>worker = 2, routerCount = 0, pid = worker_pid example_engine 2, usage = None\<rparr>"
    by blast
  then have c1: "workers (workerManager (worker_died example_engine (Inr 2) example_node 0))
      = [Some \<lparr>worker = 2, routerCount = 0, pid = 102, usage = None\<rparr>]"
    by (simp add: js_set_def example_node_def example_engine_def)
  from worker_death_only_restarts [of example_engine "Inl (Error ''spawn failed'')" example_node 0]
  have c2: "worker_died example_engine (Inl (Error ''spawn failed'')) example_node 0 = example_node"
    by blast
  from c1 c2 show ?thesis by blast
qed

text \<open>
  The claim as the specification states it fails. On the example node, room \<open>room1\<close> has
  its router \<open>R1\<close> on worker 1 and its placement in the store; worker 1 dies and worker 2
  replaces it. The placement record of \<open>room1\<close> is still in the store, and \<open>R1\<close> is still
  registered, on the dead worker.
\<close>

theorem worker_death_keeps_placement:
  "getRoomRouter (node_redis example_node) ''room1'' = Some \<lparr>nodeId = ''n1'', routerId = ''R1''\<rparr>
   \<and> map_option router_worker (getRouterByRoomId example_node ''room1'') = Some 1
   \<and> getRoomRouter (node_redis (worker_died example_engine (Inr 2) example_node 0)) ''room1''
       = Some \<lparr>nodeId = ''n1'', routerId = ''R1''\<rparr>
   \<and> map_option router_worker
         (getRouterByRoomId (worker_died example_engine (Inr 2) example_node 0) ''room1'')
       = Some 1"
  by (simp add: worker_died_def handleWorkerDeath_def getRoomRouter_def getRouterByRoomId_def
      example_node_def example_router_def)

section \<open>Properties of the cluster coordinator\<close>

lemma getBestNode_healthy:
  assumes "getBestNode m = Some n"
  shows "isHealthy n \<and> n \<in> snd ` set (nodes m)"
proof -
  let ?healthy = "filter isHealthy (map snd (nodes m))"
  from assms have ne: "?healthy \<noteq> []" and n: "n = hd (sort_key load ?healthy)"
    by (auto simp: getBestNode_def Let_def split: if_splits)
  from ne have "sort_key load ?healthy \<noteq> []" by (metis length_sort list.size(3) length_0_conv)
  then have "hd (sort_key load ?healthy) \<in> set (sort_key load ?healthy)" by (rule hd_in_set)
  with n have "n \<in> set ?healthy" by simp
  then show ?thesis by auto
qed

text \<open>
  What \<open>checkHealth\<close> does when a node's heartbeat reads as absent (and so do its
  statistics): the node's health stays what it was.
\<close>

lemma check_node_absent_heartbeat:
  assumes "redis_get r (heartbeat_key key) now = None"
      and "redis_get r (stats_key key) now = None"
  shows "isHealthy (check_node json_routers r now key n) = isHealthy n"
  using assms by (simp add: check_node_def truthy_def)

text \<open>
  Claim C5, at a failing input. The node \<open>10.0.0.1:4000\<close> is configured at time 0 and
  writes its last heartbeat at 1000 ms, with its time to live of 30 seconds. At 100000 ms
  the heartbeat key has expired and reads as absent; \<open>checkHealth\<close> then leaves the node
  healthy, and \<open>getBestNode\<close> still selects it.
\<close>

theorem expired_heartbeat_stays_healthy:
  "redis_get
     (updateNodeHealth \<lparr>client = Some \<lparr>keys = [], room_routers = []\<rparr>\<rparr>
        ''sfu-10.0.0.1-4000'' ''{}'' 1000)
     (heartbeat_key ''sfu-10.0.0.1-4000'') 100000 = None
   \<and> map_option node_id (getBestNode (checkHealth (\<lambda>stats. Inr 0)
        ((sfu_initialize \<lparr>nodes = [], redisService = \<lparr>client = Some \<lparr>keys = [], room_routers = []\<rparr>\<rparr>\<rparr>
            [''10.0.0.1:4000''] 0)
         \<lparr>redisService :=
            updateNodeHealth \<lparr>client = Some \<lparr>keys = [], room_routers = []\<rparr>\<rparr>
              ''sfu-10.0.0.1-4000'' ''{}'' 1000\<rparr>)
        100000))
     = Some ''sfu-10.0.0.1-4000''"
  by (simp add: updateNodeHealth_def redis_set_def redis_get_def heartbeat_key_def stats_key_def
      sfu_initialize_def configured_node_def split_host_def split_port_def truthy_def
      port_string_def parseInt_def is_space_def is_digit_def digits_value_def decimal.simps
      checkHealth_def check_node_def getBestNode_def)

section \<open>Allocation, in turn and overlapping\<close>

lemma set_update_subset: "set (AList.update k v al) \<subseteq> insert (k, v) (set al)"
  by (induction al) auto

lemma distinct_rooms_update:
  assumes "distinct (map (\<lambda>(k, r). router_roomId r) al)"
      and "\<forall>(k, r) \<in> set al. router_roomId r \<noteq> router_roomId v"
  shows "distinct (map (\<lambda>(k, r). router_roomId r) (AList.update uuid v al))"
  using assms
proof (induction al)
  case Nil
  then show ?case by simp
next
  case (Cons p al)
  obtain a b where p: "p = (a, b)" by (cases p)
  show ?case
  proof (cases "a = uuid")
    case True
    with Cons.prems p show ?thesis by (auto simp: image_iff)
  next
    case False
    from Cons have ih: "distinct (map (\<lambda>(k, r). router_roomId r) (AList.update uuid v al))"
      by simp
    have "router_roomId b \<notin> (\<lambda>(k, r). router_roomId r) ` set (AList.update uuid v al)"
    proof
      assume "router_roomId b \<in> (\<lambda>(k, r). router_roomId r) ` set (AList.update uuid v al)"
      then obtain k r where kr: "(k, r) \<in> set (AList.update uuid v al)" "router_roomId r = router_roomId b"
        by auto
      from kr(1) set_update_subset[of uuid v al] have "(k, r) = (uuid, v) \<or> (k, r) \<in> set al"
        by auto
      then show False
      proof
        assume "(k, r) = (uuid, v)"
        with kr(2) Cons.prems(2) p show False by auto
      next
        assume "(k, r) \<in> set al"
        with kr(2) Cons.prems(1) p show False by (auto simp: image_iff)
      qed
    qed
    with ih False p show ?thesis by simp
  qed
qed

lemma find_room_None:
  "find (\<lambda>r. router_roomId r = room) (map snd al) = None \<Longrightarrow>
   \<forall>(k, r) \<in> set al. router_roomId r \<noteq> room"
  by (auto simp: find_None_iff)

lemma createRouter_routers:
  "routers (snd (createRouter eng rm room uuid now)) = routers rm
   \<or> (find (\<lambda>r. router_roomId r = room) (map snd (routers rm)) = None
      \<and> (\<exists>v. router_roomId v = room \<and> router_id v = uuid
             \<and> fst (createRouter eng rm room uuid now) \<in> range Inl
                  \<union> {Inr (uuid, router_rtpCapabilities (router v))}
             \<and> routers (snd (createRouter eng rm room uuid now)) = AList.update uuid v (routers rm)))"
proof (cases "find (\<lambda>r. router_roomId r = room) (map snd (routers rm))")
  case (Some existingRouter)
  then show ?thesis by (simp add: createRouter_def createRouter_begin_def)
next
  case None
  show ?thesis
  proof (cases "getLeastLoadedWorker (worker_closed eng) (workerManager rm)")
    case (Inl e)
    with None show ?thesis by (simp add: createRouter_def createRouter_begin_def)
  next
    case w: (Inr w)
    show ?thesis
    proof (cases "worker_createRouter eng w")
      case (Inl e)
      with None w show ?thesis
        by (simp add: createRouter_def createRouter_begin_def createRouter_resume_def)
    next
      case nr: (Inr new_router)
      let ?v = "\<lparr>router_id = uuid, router_roomId = room, router = new_router,
                 router_worker = w, router_transports = [], router_producers = [],
                 router_consumers = [], router_createdAt = now\<rparr>"
      have "routers (snd (createRouter eng rm room uuid now)) = AList.update uuid ?v (routers rm)"
        using None w nr
        by (cases "incrementRouterCount (workerManager rm) w")
           (simp_all add: createRouter_def createRouter_begin_def createRouter_resume_def Let_def)
      moreover have "fst (createRouter eng rm room uuid now) \<in> range Inl
                  \<union> {Inr (uuid, router_rtpCapabilities (router ?v))}"
        using None w nr
        by (cases "incrementRouterCount (workerManager rm) w")
           (simp_all add: createRouter_def createRouter_begin_def createRouter_resume_def Let_def)
      moreover have "router_roomId ?v = room" "router_id ?v = uuid" by simp_all
      ultimately show ?thesis using None by blast
    qed
  qed
qed

lemma createRouter_keeps_one_per_room:
  assumes "one_router_per_room rm"
  shows "one_router_per_room (snd (createRouter eng rm room uuid now))"
proof -
  from createRouter_routers[of eng rm room uuid now]
  consider (same) "routers (snd (createRouter eng rm room uuid now)) = routers rm"
    | (new) v where "find (\<lambda>r. router_roomId r = room) (map snd (routers rm)) = None"
        "router_roomId v = room"
        "routers (snd (createRouter eng rm room uuid now)) = AList.update uuid v (routers rm)"
    by blast
  then show ?thesis
  proof cases
    case same
    with assms show ?thesis by (simp add: one_router_per_room_def)
  next
    case (new v)
    from find_room_None[OF new(1)] new(2)
    have "\<forall>(k, r) \<in> set (routers rm). router_roomId r \<noteq> router_roomId v" by simp
    from distinct_rooms_update[OF _ this] assms new(3) show ?thesis
      by (simp add: one_router_per_room_def)
  qed
qed

lemma getRoomRouter_setRoomRouter:
  "client r \<noteq> None \<Longrightarrow> getRoomRouter (setRoomRouter r room info) room = Some info"
  by (auto simp: getRoomRouter_def setRoomRouter_def update_conv')

lemma allocateRoom_existing:
  "getRoomRouter (redisService m) room = Some existing \<Longrightarrow>
   allocateRoom m room now = (Inr \<lparr>node = nodeId existing, alloc_routerId = routerId existing\<rparr>, m)"
  by (simp add: allocateRoom_def allocateRoom_resume_def)

lemma allocateRoom_records:
  assumes "client (redisService m) \<noteq> None"
      and "allocateRoom m room t1 = (Inr a1, m1)"
  shows "\<exists>ex. getRoomRouter (redisService m1) room = Some ex \<and> routerId ex = alloc_routerId a1"
proof (cases "getRoomRouter (redisService m) room")
  case (Some ex)
  with assms(2) show ?thesis by (auto simp: allocateRoom_def allocateRoom_resume_def)
next
  case None
  with assms(2) obtain best where best: "getBestNode m = Some best"
    by (auto simp: allocateRoom_def allocateRoom_resume_def split: option.splits)
  with None assms(2) have
    "m1 = m\<lparr>redisService := setRoomRouter (redisService m) room
              \<lparr>nodeId = node_id best, routerId = ''router-'' @ room @ ''-'' @ decimal t1\<rparr>\<rparr>"
    "alloc_routerId a1 = ''router-'' @ room @ ''-'' @ decimal t1"
    by (auto simp: allocateRoom_def allocateRoom_resume_def Let_def)
  with getRoomRouter_setRoomRouter[OF assms(1)] show ?thesis by simp
qed

lemma joinRoom_existing_room:
  assumes "map_of (rooms rm) room = Some r"
  shows "sfuManager (snd (joinRoom rm room u role_name display now)) = sfuManager rm
     \<and> map_option room_routerId (map_of (rooms (snd (joinRoom rm room u role_name display now))) room)
         = Some (room_routerId r)
     \<and> map_option sfuNode (map_of (rooms (snd (joinRoom rm room u role_name display now))) room)
         = Some (sfuNode r)"
  using assms
  by (simp add: joinRoom_def room_for_join_def called_def Let_def update_conv')

lemma find_update_new:
  assumes "find (\<lambda>r. router_roomId r = room) (map snd al) = None"
      and "router_roomId v = room"
  shows "find (\<lambda>r. router_roomId r = room) (map snd (AList.update uuid v al)) = Some v"
  using assms
proof (induction al)
  case Nil
  then show ?case by simp
next
  case (Cons p al)
  obtain a b where p: "p = (a, b)" by (cases p)
  from Cons.prems(1) p have b: "router_roomId b \<noteq> room"
    and rest: "find (\<lambda>r. router_roomId r = room) (map snd al) = None"
    by (simp_all split: if_splits)
  show ?case
  proof (cases "a = uuid")
    case True
    with p Cons.prems(2) show ?thesis by simp
  next
    case False
    with p b Cons.IH[OF rest Cons.prems(2)] show ?thesis by simp
  qed
qed

text \<open>
  Calls that run in turn reuse what is there. A \<open>createRouter\<close> that has returned a router
  for the room is followed, whenever no other call ran between its two parts, by calls
  that return the same router and change nothing.
\<close>

lemma createRouter_again:
  assumes "createRouter eng rm room uuid now = (Inr res, rm1)"
  shows "createRouter eng rm1 room uuid' now' = (Inr res, rm1)"
proof (cases "find (\<lambda>r. router_roomId r = room) (map snd (routers rm))")
  case (Some existingRouter)
  with assms have "rm1 = rm"
      "res = (router_id existingRouter, router_rtpCapabilities (router existingRouter))"
    by (simp_all add: createRouter_def createRouter_begin_def)
  with Some show ?thesis by (simp add: createRouter_def createRouter_begin_def)
next
  case None
  from assms None obtain w where w: "getLeastLoadedWorker (worker_closed eng) (workerManager rm) = Inr w"
    by (cases "getLeastLoadedWorker (worker_closed eng) (workerManager rm)")
       (simp_all add: createRouter_def createRouter_begin_def)
  from assms None w obtain new_router where nr: "worker_createRouter eng w = Inr new_router"
    by (cases "worker_createRouter eng w")
       (simp_all add: createRouter_def createRouter_begin_def createRouter_resume_def)
  let ?v = "\<lparr>router_id = uuid, router_roomId = room, router = new_router,
             router_worker = w, router_transports = [], router_producers = [],
             router_consumers = [], router_createdAt = now\<rparr>"
  from assms None w nr
  have res: "res = (uuid, router_rtpCapabilities new_router)"
    and upd: "routers rm1 = AList.update uuid ?v (routers rm)"
    by (cases "incrementRouterCount (workerManager rm) w";
        auto simp: createRouter_def createRouter_begin_def createRouter_resume_def Let_def)+
  from find_update_new[OF None, of ?v uuid] upd
  have "find (\<lambda>r. router_roomId r = room) (map snd (routers rm1)) = Some ?v" by simp
  with res show ?thesis by (simp add: createRouter_def createRouter_begin_def)
qed

lemma calls_in_turn_reuse:
  "(getRoomRouter (redisService m) room = Some existing \<longrightarrow>
      allocateRoom m room now = (Inr \<lparr>node = nodeId existing, alloc_routerId = routerId existing\<rparr>, m))
   \<and> (client (redisService m) \<noteq> None \<and> allocateRoom m room t1 = (Inr a1, m1) \<longrightarrow>
        (\<exists>ex. getRoomRouter (redisService m1) room = Some ex
           \<and> routerId ex = alloc_routerId a1
           \<and> allocateRoom m1 room t2 = (Inr \<lparr>node = nodeId ex, alloc_routerId = alloc_routerId a1\<rparr>, m1)))
   \<and> (map_of (rooms dir) room = Some r \<longrightarrow>
        sfuManager (snd (joinRoom dir room u role_name display now)) = sfuManager dir
        \<and> map_option room_routerId (map_of (rooms (snd (joinRoom dir room u role_name display now))) room)
            = Some (room_routerId r)
        \<and> map_option sfuNode (map_of (rooms (snd (joinRoom dir room u role_name display now))) room)
            = Some (sfuNode r))
   \<and> (getRouterByRoomId rm room = Some existingRouter \<longrightarrow>
        createRouter eng rm room uuid now
          = (Inr (router_id existingRouter, router_rtpCapabilities (router existingRouter)), rm))
   \<and> (createRouter eng rm room uuid now = (Inr res, rm1) \<longrightarrow>
        createRouter eng rm1 room uuid' now' = (Inr res, rm1))
   \<and> (one_router_per_room rm \<longrightarrow> one_router_per_room (snd (createRouter eng rm room uuid now)))"
proof (intro conjI impI)
  assume "getRoomRouter (redisService m) room = Some existing"
  then show "allocateRoom m room now
      = (Inr \<lparr>node = nodeId existing, alloc_routerId = routerId existing\<rparr>, m)"
    by (rule allocateRoom_existing)
next
  assume a: "client (redisService m) \<noteq> None \<and> allocateRoom m room t1 = (Inr a1, m1)"
  then obtain ex where ex: "getRoomRouter (redisService m1) room = Some ex"
      "routerId ex = alloc_routerId a1"
    using allocateRoom_records by blast
  from allocateRoom_existing[OF ex(1), of t2] ex
  show "\<exists>ex. getRoomRouter (redisService m1) room = Some ex
           \<and> routerId ex = alloc_routerId a1
           \<and> allocateRoom m1 room t2 = (Inr \<lparr>node = nodeId ex, alloc_routerId = alloc_routerId a1\<rparr>, m1)"
    by auto
next
  assume r: "map_of (rooms dir) room = Some r"
  from joinRoom_existing_room[OF r]
  show "sfuManager (snd (joinRoom dir room u role_name display now)) = sfuManager dir"
    and "map_option room_routerId (map_of (rooms (snd (joinRoom dir room u role_name display now))) room)
            = Some (room_routerId r)"
    and "map_option sfuNode (map_of (rooms (snd (joinRoom dir room u role_name display now))) room)
            = Some (sfuNode r)"
    by blast+
next
  assume "getRouterByRoomId rm room = Some existingRouter"
  then show "createRouter eng rm room uuid now
          = (Inr (router_id existingRouter, router_rtpCapabilities (router existingRouter)), rm)"
    by (simp add: createRouter_def createRouter_begin_def getRouterByRoomId_def)
next
  assume "createRouter eng rm room uuid now = (Inr res, rm1)"
  then show "createRouter eng rm1 room uuid' now' = (Inr res, rm1)"
    by (rule createRouter_again)
next
  assume "one_router_per_room rm"
  then show "one_router_per_room (snd (createRouter eng rm room uuid now))"
    by (rule createRouter_keeps_one_per_room)
qed

lemmas node_defs = node_run_def new_Node_def new_RouterManager_def example_idle_node_def
  example_pool_def example_engine_def createRouter_begin_def createRouter_resume_def
  getLeastLoadedWorker_def loadScore_def incrementRouterCount_def
  setRoomRouter_def getRoomRouter_def one_router_per_room_def Let_def

text \<open>
  Two calls for room \<open>room1\<close> that run in turn on the idle node of the example: the
  second one finds the router of the first.
\<close>

lemma createRouter_in_turn:
  "node_returned (node_run example_engine example_idle_node
      [CreateRouterCalled ''A'' ''room1'', CreateRouterResumed ''A'' ''R1'' 10,
       CreateRouterCalled ''B'' ''room1''])
     = [(''A'', Inr (''R1'', ''caps'')), (''B'', Inr (''R1'', ''caps''))]
   \<and> map fst (routers (node_manager (node_run example_engine example_idle_node
      [CreateRouterCalled ''A'' ''room1'', CreateRouterResumed ''A'' ''R1'' 10,
       CreateRouterCalled ''B'' ''room1''])))
     = [''R1'']"
  by (simp add: node_defs)

text \<open>
  Two calls of \<open>allocateRoom\<close> for room \<open>r\<close> that overlap, on the cluster of the example:
  both get the store's reply "no placement" before either writes. Each then makes up a
  router identifier and writes its placement; the callers get different routers for the
  room, and the store keeps the one written last.
\<close>

lemma overlapping_allocateRoom_differ:
  "getRoomRouter (redisService example_sfu) ''r'' = None
   \<and> fst (allocateRoom_resume example_sfu ''r'' None 5)
     = Inr \<lparr>node = ''10.0.0.1:4000'', alloc_routerId = ''router-r-5''\<rparr>
   \<and> fst (allocateRoom_resume (snd (allocateRoom_resume example_sfu ''r'' None 5)) ''r'' None 6)
     = Inr \<lparr>node = ''10.0.0.1:4000'', alloc_routerId = ''router-r-6''\<rparr>
   \<and> getRoomRouter (redisService
        (snd (allocateRoom_resume (snd (allocateRoom_resume example_sfu ''r'' None 5)) ''r'' None 6)))
        ''r''
     = Some \<lparr>nodeId = ''sfu-10.0.0.1-4000'', routerId = ''router-r-6''\<rparr>"
  by (simp add: allocateRoom_resume_def getRoomRouter_def setRoomRouter_def getBestNode_def
      port_string_def decimal.simps Let_def example_sfu_def)

text \<open>
  A second \<open>allocateRoom\<close> in turn returns the router of the first, and names the node by
  its identifier where the first call named it by host and port.
\<close>

lemma allocateRoom_in_turn:
  "fst (allocateRoom example_sfu ''r'' 2)
     = Inr \<lparr>node = ''10.0.0.1:4000'', alloc_routerId = ''router-r-2''\<rparr>
   \<and> fst (allocateRoom (snd (allocateRoom example_sfu ''r'' 2)) ''r'' 9)
     = Inr \<lparr>node = ''sfu-10.0.0.1-4000'', alloc_routerId = ''router-r-2''\<rparr>"
  by (simp add: allocateRoom_def allocateRoom_resume_def getRoomRouter_def setRoomRouter_def
      getBestNode_def port_string_def decimal.simps Let_def example_sfu_def)

text \<open>
  Claim C1. At most one router per room, under overlapping callers too: this is what the
  source misses. On the idle node of the example, two calls \<open>createRouter('room1')\<close>
  arrive one after the other, \<open>A\<close> and \<open>B\<close>, before the worker has answered either. Both
  have looked for a router of \<open>room1\<close> and found none; when they run on, each adds a
  router. The node then has two routers for \<open>room1\<close>, \<open>R1\<close> and \<open>R2\<close>, the two callers
  hold different routers, and the placement record of the room names the later one.
\<close>

theorem overlapping_createRouter_two_routers:
  "node_returned (node_run example_engine example_idle_node
      [CreateRouterCalled ''A'' ''room1'', CreateRouterCalled ''B'' ''room1'',
       CreateRouterResumed ''A'' ''R1'' 10, CreateRouterResumed ''B'' ''R2'' 11])
     = [(''A'', Inr (''R1'', ''caps'')), (''B'', Inr (''R2'', ''caps''))]
   \<and> map (router_roomId \<circ> snd) (routers (node_manager (node_run example_engine example_idle_node
      [CreateRouterCalled ''A'' ''room1'', CreateRouterCalled ''B'' ''room1'',
       CreateRouterResumed ''A'' ''R1'' 10, CreateRouterResumed ''B'' ''R2'' 11])))
     = [''room1'', ''room1'']
   \<and> map fst (routers (node_manager (node_run example_engine example_idle_node
      [CreateRouterCalled ''A'' ''room1'', CreateRouterCalled ''B'' ''room1'',
       CreateRouterResumed ''A'' ''R1'' 10, CreateRouterResumed ''B'' ''R2'' 11])))
     = [''R1'', ''R2'']
   \<and> \<not> one_router_per_room (node_manager (node_run example_engine example_idle_node
      [CreateRouterCalled ''A'' ''room1'', CreateRouterCalled ''B'' ''room1'',
       CreateRouterResumed ''A'' ''R1'' 10, CreateRouterResumed ''B'' ''R2'' 11]))
   \<and> getRoomRouter (node_redis (node_manager (node_run example_engine example_idle_node
      [CreateRouterCalled ''A'' ''room1'', CreateRouterCalled ''B'' ''room1'',
       CreateRouterResumed ''A'' ''R1'' 10, CreateRouterResumed ''B'' ''R2'' 11]))) ''room1''
     = Some \<lparr>nodeId = ''n1'', routerId = ''R2''\<rparr>"
  by (simp add: node_defs)

section \<open>Messages in the wrong state\<close>

text \<open>
  Claim C8, as the code has it. For a registered connection with an open socket: an unknown
  event is answered with an error event; \<open>join-room\<close> before authentication is answered with
  \<open>NOT_AUTHENTICATED\<close>; \<open>create-transport\<close>, \<open>connect-transport\<close>, \<open>produce\<close> and \<open>consume\<close>
  outside a room are answered with \<open>NOT_IN_ROOM\<close>; \<open>leave-room\<close>, \<open>resume-consumer\<close>,
  \<open>pause-producer\<close>, \<open>resume-producer\<close>, \<open>close-producer\<close> and \<open>set-preferred-layers\<close> outside a
  room are ignored: nothing is sent and the state is unchanged. Whatever the message,
  handling it leaves the connection registered and its socket open.
\<close>

theorem wrong_state_replies:
  assumes "map_of (clients s) cid = Some c" and "socket_open c"
  shows "sent_to (handleMessage auth s cid (UnknownEvent name) now) cid
           = sent c @ [ErrorEvent (''Unknown event: '' @ name) None]
     \<and> (user c = None \<longrightarrow>
          sent_to (handleMessage auth s cid (JoinRoom room role_name display caps) now) cid
            = sent c @ [ErrorEvent ''Not authenticated'' (Some ''NOT_AUTHENTICATED'')])
     \<and> (\<not> truthy (roomId c) \<longrightarrow>
          m \<in> {CreateTransport direction sctp, ConnectTransport transportId dtls,
                Produce transportId kind rtp appData, Consume producerId rtpCaps} \<longrightarrow>
          sent_to (handleMessage auth s cid m now) cid
            = sent c @ [ErrorEvent ''Not in a room'' (Some ''NOT_IN_ROOM'')])
     \<and> (\<not> truthy (roomId c) \<longrightarrow>
          m' \<in> {LeaveRoom, ResumeConsumer consumerId, PauseProducer producerId,
                 ResumeProducer producerId, CloseProducer producerId,
                 SetPreferredLayers consumerId spatial temporal} \<longrightarrow>
          handleMessage auth s cid m' now = s)
     \<and> connection_open (handleMessage auth s cid any_message now) cid"
proof (intro conjI impI)
  show "sent_to (handleMessage auth s cid (UnknownEvent name) now) cid
           = sent c @ [ErrorEvent (''Unknown event: '' @ name) None]"
    using assms by (simp add: handleMessage_def sent_to_sendError)
next
  assume "user c = None"
  then show "sent_to (handleMessage auth s cid (JoinRoom room role_name display caps) now) cid
            = sent c @ [ErrorEvent ''Not authenticated'' (Some ''NOT_AUTHENTICATED'')]"
    using assms by (simp add: handleMessage_def handleJoinRoom_def sent_to_sendError)
next
  assume out: "\<not> truthy (roomId c)"
    and m: "m \<in> {CreateTransport direction sctp, ConnectTransport transportId dtls,
                Produce transportId kind rtp appData, Consume producerId rtpCaps}"
  from m consider "m = CreateTransport direction sctp" | "m = ConnectTransport transportId dtls"
    | "m = Produce transportId kind rtp appData" | "m = Consume producerId rtpCaps"
    by blast
  then show "sent_to (handleMessage auth s cid m now) cid
            = sent c @ [ErrorEvent ''Not in a room'' (Some ''NOT_IN_ROOM'')]"
  proof cases
    case 1
    with out assms show ?thesis
      by (simp add: handleMessage_def handleCreateTransport_def sent_to_sendError)
  next
    case 2
    with out assms show ?thesis
      by (simp add: handleMessage_def handleConnectTransport_def sent_to_sendError)
  next
    case 3
    with out assms show ?thesis
      by (simp add: handleMessage_def handleProduce_def sent_to_sendError)
  next
    case 4
    with out assms show ?thesis
      by (simp add: handleMessage_def handleConsume_def sent_to_sendError)
  qed
next
  assume out: "\<not> truthy (roomId c)"
    and m: "m' \<in> {LeaveRoom, ResumeConsumer consumerId, PauseProducer producerId,
                 ResumeProducer producerId, CloseProducer producerId,
                 SetPreferredLayers consumerId spatial temporal}"
  from m consider "m' = LeaveRoom" | "m' = ResumeConsumer consumerId"
    | "m' = PauseProducer producerId" | "m' = ResumeProducer producerId"
    | "m' = CloseProducer producerId" | "m' = SetPreferredLayers consumerId spatial temporal"
    by blast
  then show "handleMessage auth s cid m' now = s"
  proof cases
    case 1
    with out assms show ?thesis by (simp add: handleMessage_def handleLeaveRoom_def)
  next
    case 2
    with out assms show ?thesis by (simp add: handleMessage_def handleResumeConsumer_def)
  next
    case 3
    with out assms show ?thesis by (simp add: handleMessage_def handlePauseProducer_def)
  next
    case 4
    with out assms show ?thesis by (simp add: handleMessage_def handleResumeProducer_def)
  next
    case 5
    with out assms show ?thesis by (simp add: handleMessage_def handleCloseProducer_def)
  next
    case 6
    with out assms show ?thesis by (simp add: handleMessage_def handleSetPreferredLayers_def)
  qed
next
  have "connection_open s cid" using assms by (simp add: connection_open_def)
  then show "connection_open (handleMessage auth s cid any_message now) cid"
    by (simp add: connection_stays_open)
qed

theorem wrong_state_replies_witness:
  "sent_to (handleMessage example_auth example_connected ''c1'' (UnknownEvent ''ping'') 5) ''c1''
     = [Welcome ''c1'' 0, ErrorEvent ''Unknown event: ping'' None]
   \<and> sent_to (handleMessage example_auth example_connected ''c1''
        (JoinRoom ''r'' ''viewer'' ''Ann'' None) 5) ''c1''
     = [Welcome ''c1'' 0, ErrorEvent ''Not authenticated'' (Some ''NOT_AUTHENTICATED'')]
   \<and> sent_to (handleMessage example_auth example_connected ''c1''
        (Consume ''producer-1'' ''caps'') 5) ''c1''
     = [Welcome ''c1'' 0, ErrorEvent ''Not in a room'' (Some ''NOT_IN_ROOM'')]
   \<and> handleMessage example_auth example_connected ''c1'' LeaveRoom 5 = example_connected
   \<and> connection_open (handleMessage example_auth example_connected ''c1''
        (Authenticate ''tok'' ''org'') 5) ''c1''"
proof -
  note reg = example_connected_client
  have op: "socket_open example_client" by (simp add: example_client_def new_client_def)
  have nobody: "user example_client = None" by (simp add: example_client_def new_client_def)
  have out: "\<not> truthy (roomId example_client)"
    by (simp add: example_client_def new_client_def truthy_def)
  have before: "sent example_client = [Welcome ''c1'' 0]"
    by (simp add: example_client_def)
  note t = wrong_state_replies [OF reg op, where auth = example_auth and now = 5]
  from t [where name = "''ping''"]
  have "sent_to (handleMessage example_auth example_connected ''c1'' (UnknownEvent ''ping'') 5) ''c1''
      = sent example_client @ [ErrorEvent (''Unknown event: '' @ ''ping'') None]"
    by blast
  with before have c1:
    "sent_to (handleMessage example_auth example_connected ''c1'' (UnknownEvent ''ping'') 5) ''c1''
      = [Welcome ''c1'' 0, ErrorEvent ''Unknown event: ping'' None]"
    by simp
  from t [where room = "''r''" and role_name = "''viewer''" and display = "''Ann''" and caps = None]
    nobody
  have "sent_to (handleMessage example_auth example_connected ''c1''
        (JoinRoom ''r'' ''viewer'' ''Ann'' None) 5) ''c1''
      = sent example_client @ [ErrorEvent ''Not authenticated'' (Some ''NOT_AUTHENTICATED'')]"
    by blast
  with before have c2: "sent_to (handleMessage example_auth example_connected ''c1''
        (JoinRoom ''r'' ''viewer'' ''Ann'' None) 5) ''c1''
      = [Welcome ''c1'' 0, ErrorEvent ''Not authenticated'' (Some ''NOT_AUTHENTICATED'')]"
    by simp
  from t [where m = "Consume ''producer-1'' ''caps''" and producerId = "''producer-1''"
      and rtpCaps = "''caps''"] out
  have "sent_to (handleMessage example_auth example_connected ''c1''
        (Consume ''producer-1'' ''caps'') 5) ''c1''
      = sent example_client @ [ErrorEvent ''Not in a room'' (Some ''NOT_IN_ROOM'')]"
    by blast
  with before have c3: "sent_to (handleMessage example_auth example_connected ''c1''
        (Consume ''producer-1'' ''caps'') 5) ''c1''
      = [Welcome ''c1'' 0, ErrorEvent ''Not in a room'' (Some ''NOT_IN_ROOM'')]"
    by simp
  from t [where m' = LeaveRoom] out
  have c4: "handleMessage example_auth example_connected ''c1'' LeaveRoom 5 = example_connected"
    by blast
  from t [where any_message = "Authenticate ''tok'' ''org''"]
  have c5: "connection_open (handleMessage example_auth example_connected ''c1''
        (Authenticate ''tok'' ''org'') 5) ''c1''"
    by blast
  from c1 c2 c3 c4 c5 show ?thesis by blast
qed

text \<open>
  The claim as the specification states it fails: the freshly connected client of the
  example sends \<open>resume-consumer\<close> outside a room and gets no error event, and no reply at
  all.
\<close>

theorem resume_consumer_outside_room_dropped:
  "connection_open example_connected ''c1''
   \<and> sent_to example_connected ''c1'' = [Welcome ''c1'' 0]
   \<and> sent_to (handleMessage example_auth example_connected ''c1''
        (ResumeConsumer ''consumer-1'') 5) ''c1''
     = [Welcome ''c1'' 0]"
  by (simp add: example_connected_client example_client_def new_client_def handleMessage_def
      handleResumeConsumer_def truthy_def sent_to_def connection_open_def)

section \<open>Connections without a user\<close>

text \<open>A connection without a user is in no room: the handlers keep it so.\<close>

lemma outside_map_entry:
  assumes "list_all (\<lambda>(k, c). outside c) al"
      and step: "\<And>c0. map_of al cid = Some c0 \<Longrightarrow> outside c0 \<Longrightarrow> outside (f c0)"
  shows "list_all (\<lambda>(k, c). outside c) (AList.map_entry cid f al)"
  using assms
proof (induction al)
  case Nil
  show ?case by simp
next
  case (Cons p al)
  obtain k c where p: "p = (k, c)" by (cases p)
  show ?case
  proof (cases "k = cid")
    case True
    from Cons.prems(1) p have "outside c" "list_all (\<lambda>(k, c). outside c) al" by simp_all
    moreover from Cons.prems(2)[of c] p True \<open>outside c\<close> have "outside (f c)" by simp
    ultimately show ?thesis using p True by simp
  next
    case False
    from Cons.prems(1) p have c: "outside c" and rest: "list_all (\<lambda>(k, c). outside c) al"
      by simp_all
    have "\<And>c0. map_of al cid = Some c0 \<Longrightarrow> outside c0 \<Longrightarrow> outside (f c0)"
      using Cons.prems(2) p False by simp
    from Cons.IH[OF rest this] c p False show ?thesis by simp
  qed
qed

lemma outside_on_client:
  assumes "unauthenticated_outside s"
      and "\<And>c0. map_of (clients s) cid = Some c0 \<Longrightarrow> outside c0 \<Longrightarrow> outside (f c0)"
  shows "unauthenticated_outside (on_client cid f s)"
  using assms unfolding unauthenticated_outside_def on_client_def
  by (simp add: outside_map_entry)

lemma outside_socket_send [simp]: "outside (socket_send m c) = outside c"
  by (simp add: socket_send_def outside_def)

lemma outside_send:
  "unauthenticated_outside s \<Longrightarrow> unauthenticated_outside (send cid m s)"
  unfolding send_def by (rule outside_on_client) simp_all

lemma outside_sendError:
  "unauthenticated_outside s \<Longrightarrow> unauthenticated_outside (sendError cid message code s)"
  unfolding sendError_def by (rule outside_send)

lemma outside_broadcastToRoom:
  "unauthenticated_outside s \<Longrightarrow> unauthenticated_outside (broadcastToRoom room ex m s)"
  unfolding unauthenticated_outside_def broadcastToRoom_def
  by (simp add: list_all_iff case_prod_unfold)

lemma outside_roomManager [simp]:
  "unauthenticated_outside (s\<lparr>roomManager := rm\<rparr>) = unauthenticated_outside s"
  by (simp add: unauthenticated_outside_def)

lemma clients_roomManager_update: "clients (s\<lparr>roomManager := rm\<rparr>) = clients s"
  by simp

lemma outside_cleanupClientRoom:
  assumes "unauthenticated_outside s"
  shows "unauthenticated_outside (cleanupClientRoom s cid c)"
proof (cases "\<not> truthy (roomId c) \<or> \<not> truthy (participantId c)")
  case True
  with assms show ?thesis by (simp add: cleanupClientRoom_def)
next
  case False
  have clear: "\<And>c0. outside (c0\<lparr>roomId := None, participantId := None, transportIds := [],
                      producerIds := [], consumerIds := []\<rparr>)"
    by (simp add: outside_def)
  from False show ?thesis
    unfolding cleanupClientRoom_def Let_def
    by (simp add: outside_on_client outside_broadcastToRoom assms clear)
qed

lemma outside_handleJoinRoom:
  assumes inv: "unauthenticated_outside s" and reg: "map_of (clients s) cid = Some c"
  shows "unauthenticated_outside (handleJoinRoom s cid c room role_name display caps now)"
proof (cases "user c")
  case None
  with inv show ?thesis by (simp add: handleJoinRoom_def outside_sendError)
next
  case (Some u)
  obtain res rm where j: "joinRoom (roomManager s) room u role_name display now = (res, rm)"
    by (cases "joinRoom (roomManager s) room u role_name display now")
  show ?thesis
  proof (cases res)
    case (Inl e)
    with Some j inv show ?thesis by (simp add: handleJoinRoom_def outside_sendError)
  next
    case (Inr roomInfo)
    let ?pid = "joined_participantId roomInfo"
    let ?s1 = "on_client cid (\<lambda>c. c\<lparr>roomId := Some room, participantId := Some ?pid\<rparr>)
                 (s\<lparr>roomManager := rm\<rparr>)"
    have enter: "\<And>c0. map_of (clients (s\<lparr>roomManager := rm\<rparr>)) cid = Some c0 \<Longrightarrow> outside c0 \<Longrightarrow>
        outside (c0\<lparr>roomId := Some room, participantId := Some ?pid\<rparr>)"
      using reg Some by (simp add: outside_def)
    have s1: "unauthenticated_outside ?s1"
      by (rule outside_on_client) (simp_all add: inv enter)
    have step: "\<And>t. unauthenticated_outside t \<Longrightarrow>
        unauthenticated_outside (broadcastToRoom room (client_id c)
          (ParticipantJoined ?pid (user_id u) display role_name)
          (send cid (RoomJoined room ?pid (joined_routerRtpCapabilities roomInfo)
             (filter (\<lambda>p. info_id p \<noteq> ?pid) (fst (getParticipants (roomManager t) room)))
             (joined_sfuNode roomInfo))
           (t\<lparr>roomManager := snd (getParticipants (roomManager t) room)\<rparr>)))"
      by (simp add: outside_broadcastToRoom outside_send)
    show ?thesis
    proof (cases "truthy caps")
      case False
      with Some j Inr step[OF s1] show ?thesis
        by (simp add: handleJoinRoom_def Let_def case_prod_unfold)
    next
      case True
      have "unauthenticated_outside
          (?s1\<lparr>roomManager :=
                 setParticipantRtpCapabilities (roomManager ?s1) room ?pid (the caps)\<rparr>)"
        using s1 by simp
      from step[OF this] Some j Inr True show ?thesis
        by (simp add: handleJoinRoom_def Let_def case_prod_unfold)
    qed
  qed
qed

lemma outside_handleMessage:
  assumes inv: "unauthenticated_outside s"
  shows "unauthenticated_outside (handleMessage auth s cid m now)"
proof (cases "map_of (clients s) cid")
  case None
  with inv show ?thesis by (simp add: handleMessage_def)
next
  case (Some c)
  have keep_sets: "\<And>f g h c0. outside c0 \<Longrightarrow>
      outside (c0\<lparr>transportIds := f (transportIds c0)\<rparr>)
      \<and> outside (c0\<lparr>producerIds := g (producerIds c0)\<rparr>)
      \<and> outside (c0\<lparr>consumerIds := h (consumerIds c0)\<rparr>)"
    by (simp add: outside_def)
  show ?thesis
  proof (cases m)
    case (Authenticate token org)
    have "\<And>u c0. outside (c0\<lparr>user := Some u\<rparr>)" by (simp add: outside_def)
    with Some Authenticate inv show ?thesis
      by (simp add: handleMessage_def handleAuthenticate_def outside_sendError outside_send
          outside_on_client split: sum.splits)
  next
    case (JoinRoom room role_name display caps)
    with Some outside_handleJoinRoom[OF inv Some] show ?thesis
      by (simp add: handleMessage_def)
  next
    case LeaveRoom
    with Some inv show ?thesis
      by (simp add: handleMessage_def handleLeaveRoom_def outside_cleanupClientRoom)
  next
    case (CreateTransport direction sctp)
    with Some inv keep_sets show ?thesis
      by (simp add: handleMessage_def handleCreateTransport_def Let_def case_prod_unfold
          outside_sendError outside_send outside_on_client)
  next
    case (ConnectTransport transportId dtls)
    with Some inv show ?thesis
      by (simp add: handleMessage_def handleConnectTransport_def outside_sendError outside_send)
  next
    case (Produce transportId kind rtp appData)
    with Some inv keep_sets show ?thesis
      by (simp add: handleMessage_def handleProduce_def Let_def case_prod_unfold
          outside_sendError outside_send outside_on_client outside_broadcastToRoom
          split: option.splits)
  next
    case (Consume producerId caps)
    with Some inv keep_sets show ?thesis
      by (simp add: handleMessage_def handleConsume_def consume_reply_def case_prod_unfold
          Let_def outside_sendError outside_send outside_on_client split: option.splits)
  next
    case (ResumeConsumer consumerId)
    with Some inv show ?thesis
      by (simp add: handleMessage_def handleResumeConsumer_def outside_send)
  next
    case (PauseProducer producerId)
    with Some inv show ?thesis
      by (simp add: handleMessage_def handlePauseProducer_def outside_broadcastToRoom)
  next
    case (ResumeProducer producerId)
    with Some inv show ?thesis
      by (simp add: handleMessage_def handleResumeProducer_def outside_broadcastToRoom)
  next
    case (CloseProducer producerId)
    with Some inv keep_sets show ?thesis
      by (simp add: handleMessage_def handleCloseProducer_def outside_broadcastToRoom
          outside_on_client)
  next
    case (SetPreferredLayers consumerId spatial temporal)
    with Some inv show ?thesis
      by (simp add: handleMessage_def handleSetPreferredLayers_def)
  next
    case (GetRouterRtpCapabilities room)
    with Some inv show ?thesis
      by (simp add: handleMessage_def handleGetRouterRtpCapabilities_def case_prod_unfold
          Let_def outside_send)
  next
    case (UnknownEvent name)
    with Some inv show ?thesis by (simp add: handleMessage_def outside_sendError)
  qed
qed

lemma list_all_update:
  "list_all P al \<Longrightarrow> P (k, v) \<Longrightarrow> list_all P (AList.update k v al)"
  by (induction al) auto

lemma outside_handleConnection:
  assumes "unauthenticated_outside s"
  shows "unauthenticated_outside (handleConnection s clientId address now)"
proof -
  have "outside (new_client clientId address now)"
    by (simp add: outside_def new_client_def)
  with assms have "unauthenticated_outside
      (s\<lparr>clients := AList.update clientId (new_client clientId address now) (clients s)\<rparr>)"
    by (simp add: unauthenticated_outside_def list_all_update)
  then show ?thesis unfolding handleConnection_def by (rule outside_send)
qed

lemma outside_rateLimiter [simp]:
  "unauthenticated_outside (s\<lparr>rateLimiter := x\<rparr>) = unauthenticated_outside s"
  by (simp add: unauthenticated_outside_def)

lemma outside_on_message:
  assumes "unauthenticated_outside s"
  shows "unauthenticated_outside (on_message auth s cid parsed now)"
proof (cases "map_of (clients s) cid")
  case None
  with assms show ?thesis by (simp add: on_message_def)
next
  case (Some c)
  obtain res svc where chk: "checkMessage (rateLimiter s) cid (map_option user_id (user c)) now = (res, svc)"
    by (cases "checkMessage (rateLimiter s) cid (map_option user_id (user c)) now")
  have s1: "unauthenticated_outside (s\<lparr>rateLimiter := svc\<rparr>)" using assms by simp
  show ?thesis
  proof (cases "allowed res")
    case False
    with Some chk s1 show ?thesis by (simp add: on_message_def outside_sendError)
  next
    case True
    show ?thesis
    proof (cases parsed)
      case (Inl e)
      with True Some chk s1 show ?thesis by (simp add: on_message_def outside_sendError)
    next
      case (Inr message)
      with True Some chk outside_handleMessage[OF s1] show ?thesis by (simp add: on_message_def)
    qed
  qed
qed

lemma outside_on_close:
  assumes "unauthenticated_outside s"
  shows "unauthenticated_outside (on_close s cid)"
proof (cases "map_of (clients s) cid")
  case None
  with assms show ?thesis by (simp add: on_close_def)
next
  case (Some c)
  have "unauthenticated_outside (cleanupClient s cid c)"
    using outside_cleanupClientRoom[OF assms, of cid c]
    by (simp add: cleanupClient_def Let_def split: option.splits)
  then have "list_all (\<lambda>(k, c). outside c) (AList.delete cid (clients (cleanupClient s cid c)))"
    by (auto simp: unauthenticated_outside_def list_all_iff AList.delete_eq)
  with Some show ?thesis by (simp add: on_close_def Let_def unauthenticated_outside_def)
qed

lemma outside_gateway_step:
  "unauthenticated_outside s \<Longrightarrow> unauthenticated_outside (gateway_step auth s ev)"
  by (cases ev) (simp_all add: outside_handleConnection outside_on_message outside_on_close)

lemma outside_gateway_run:
  "unauthenticated_outside s \<Longrightarrow> unauthenticated_outside (gateway_run auth s evs)"
  unfolding gateway_run_def
  by (induction evs arbitrary: s) (simp_all add: outside_gateway_step)

lemma outside_reachable:
  "unauthenticated_outside (gateway_run auth (new_SignalingServer sfu limiterService) evs)"
  by (rule outside_gateway_run) (simp add: unauthenticated_outside_def new_SignalingServer_def)

lemma outside_client:
  "unauthenticated_outside s \<Longrightarrow> map_of (clients s) cid = Some c \<Longrightarrow> outside c"
  by (auto simp: unauthenticated_outside_def list_all_iff dest: map_of_SomeD)

text \<open>
  Claim C2, as the code has it. Take any state the server can reach and a registered
  connection without a user; it is in no room. A message from it, other than
  \<open>get-router-rtp-capabilities\<close>, invokes no method of the room manager and leaves the room
  manager as it is. Unless the message is \<open>authenticate\<close>, the connection gets either no
  reply or exactly one error event; for \<open>join-room\<close> on an open socket this is the
  \<open>NOT_AUTHENTICATED\<close> error.
\<close>

theorem unauthenticated_kept_from_room_manager:
  assumes "s = gateway_run auth (new_SignalingServer sfu limiterService) evs"
      and "map_of (clients s) cid = Some c"
      and "user c = None"
      and "\<forall>room. m \<noteq> GetRouterRtpCapabilities room"
  shows "roomId c = None
     \<and> roomManager (handleMessage auth s cid m now) = roomManager s
     \<and> ((\<forall>token org. m \<noteq> Authenticate token org) \<longrightarrow>
          sent_to (handleMessage auth s cid m now) cid = sent c
          \<or> (\<exists>message code.
               sent_to (handleMessage auth s cid m now) cid = sent c @ [ErrorEvent message code]))
     \<and> (socket_open c \<longrightarrow>
          sent_to (handleMessage auth s cid (JoinRoom room role_name display caps) now) cid
            = sent c @ [ErrorEvent ''Not authenticated'' (Some ''NOT_AUTHENTICATED'')])"
proof -
  have "unauthenticated_outside s" unfolding assms(1) by (rule outside_reachable)
  from outside_client[OF this assms(2)] assms(3)
  have out: "roomId c = None" by (simp add: outside_def)
  then have nt: "\<not> truthy (roomId c)" by (simp add: truthy_def)
  note reg = assms(2)
  have rm: "roomManager (handleMessage auth s cid m now) = roomManager s"
  proof (cases m)
    case (Authenticate token org)
    with reg show ?thesis
      by (simp add: handleMessage_def handleAuthenticate_def on_client_def split: sum.splits)
  next
    case (JoinRoom room role_name display caps)
    with reg assms(3) show ?thesis by (simp add: handleMessage_def handleJoinRoom_def)
  next
    case LeaveRoom
    with reg nt show ?thesis by (simp add: handleMessage_def handleLeaveRoom_def)
  next
    case (CreateTransport direction sctp)
    with reg nt show ?thesis by (simp add: handleMessage_def handleCreateTransport_def)
  next
    case (ConnectTransport transportId dtls)
    with reg nt show ?thesis by (simp add: handleMessage_def handleConnectTransport_def)
  next
    case (Produce transportId kind rtp appData)
    with reg nt show ?thesis by (simp add: handleMessage_def handleProduce_def)
  next
    case (Consume producerId caps)
    with reg nt show ?thesis by (simp add: handleMessage_def handleConsume_def)
  next
    case (ResumeConsumer consumerId)
    with reg nt show ?thesis by (simp add: handleMessage_def handleResumeConsumer_def)
  next
    case (PauseProducer producerId)
    with reg nt show ?thesis by (simp add: handleMessage_def handlePauseProducer_def)
  next
    case (ResumeProducer producerId)
    with reg nt show ?thesis by (simp add: handleMessage_def handleResumeProducer_def)
  next
    case (CloseProducer producerId)
    with reg nt show ?thesis by (simp add: handleMessage_def handleCloseProducer_def)
  next
    case (SetPreferredLayers consumerId spatial temporal)
    with reg nt show ?thesis by (simp add: handleMessage_def handleSetPreferredLayers_def)
  next
    case (GetRouterRtpCapabilities room)
    with assms(4) show ?thesis by simp
  next
    case (UnknownEvent name)
    with reg show ?thesis by (simp add: handleMessage_def)
  qed
  have reply: "(\<forall>token org. m \<noteq> Authenticate token org) \<longrightarrow>
          sent_to (handleMessage auth s cid m now) cid = sent c
          \<or> (\<exists>message code.
               sent_to (handleMessage auth s cid m now) cid = sent c @ [ErrorEvent message code])"
  proof
    assume na: "\<forall>token org. m \<noteq> Authenticate token org"
    have same: "sent_to s cid = sent c" using reg by (simp add: sent_to_def)
    show "sent_to (handleMessage auth s cid m now) cid = sent c
          \<or> (\<exists>message code.
               sent_to (handleMessage auth s cid m now) cid = sent c @ [ErrorEvent message code])"
    proof (cases m)
      case (Authenticate token org)
      with na show ?thesis by simp
    next
      case (JoinRoom room role_name display caps)
      with reg assms(3) show ?thesis
        by (simp add: handleMessage_def handleJoinRoom_def sent_to_sendError)
    next
      case LeaveRoom
      with reg nt same show ?thesis by (simp add: handleMessage_def handleLeaveRoom_def)
    next
      case (CreateTransport direction sctp)
      with reg nt show ?thesis
        by (simp add: handleMessage_def handleCreateTransport_def sent_to_sendError)
    next
      case (ConnectTransport transportId dtls)
      with reg nt show ?thesis
        by (simp add: handleMessage_def handleConnectTransport_def sent_to_sendError)
    next
      case (Produce transportId kind rtp appData)
      with reg nt show ?thesis
        by (simp add: handleMessage_def handleProduce_def sent_to_sendError)
    next
      case (Consume producerId caps)
      with reg nt show ?thesis
        by (simp add: handleMessage_def handleConsume_def sent_to_sendError)
    next
      case (ResumeConsumer consumerId)
      with reg nt same show ?thesis by (simp add: handleMessage_def handleResumeConsumer_def)
    next
      case (PauseProducer producerId)
      with reg nt same show ?thesis by (simp add: handleMessage_def handlePauseProducer_def)
    next
      case (ResumeProducer producerId)
      with reg nt same show ?thesis by (simp add: handleMessage_def handleResumeProducer_def)
    next
      case (CloseProducer producerId)
      with reg nt same show ?thesis by (simp add: handleMessage_def handleCloseProducer_def)
    next
      case (SetPreferredLayers consumerId spatial temporal)
      with reg nt same show ?thesis by (simp add: handleMessage_def handleSetPreferredLayers_def)
    next
      case (GetRouterRtpCapabilities room)
      with assms(4) show ?thesis by simp
    next
      case (UnknownEvent name)
      with reg show ?thesis by (simp add: handleMessage_def sent_to_sendError)
    qed
  qed
  have join: "socket_open c \<longrightarrow>
          sent_to (handleMessage auth s cid (JoinRoom room role_name display caps) now) cid
            = sent c @ [ErrorEvent ''Not authenticated'' (Some ''NOT_AUTHENTICATED'')]"
    using reg assms(3) by (simp add: handleMessage_def handleJoinRoom_def sent_to_sendError)
  from out rm reply join show ?thesis by blast
qed

theorem unauthenticated_kept_from_room_manager_witness:
  "user example_client = None
   \<and> roomManager (handleMessage example_auth example_connected ''c1''
        (CreateTransport send_direction None) 5)
     = \<lparr>rooms = [], sfuManager = example_sfu, calls = []\<rparr>
   \<and> (sent_to (handleMessage example_auth example_connected ''c1''
          (CreateTransport send_direction None) 5) ''c1'' = [Welcome ''c1'' 0]
      \<or> (\<exists>message code.
            sent_to (handleMessage example_auth example_connected ''c1''
              (CreateTransport send_direction None) 5) ''c1''
            = [Welcome ''c1'' 0, ErrorEvent message code]))
   \<and> sent_to (handleMessage example_auth example_connected ''c1''
        (JoinRoom ''r'' ''viewer'' ''Ann'' None) 5) ''c1''
     = [Welcome ''c1'' 0, ErrorEvent ''Not authenticated'' (Some ''NOT_AUTHENTICATED'')]"
proof -
  have reach: "example_connected
      = gateway_run example_auth
          (new_SignalingServer example_sfu (new_RateLimiterService DEFAULT_RATE_LIMIT_CONFIG))
          [Connected ''c1'' ''10.0.0.9'' 0]"
    by (simp add: example_connected_def)
  note reg = example_connected_client
  have nobody: "user example_client = None" by (simp add: example_client_def new_client_def)
  have op: "socket_open example_client" by (simp add: example_client_def new_client_def)
  have before: "sent example_client = [Welcome ''c1'' 0]" by (simp add: example_client_def)
  have other: "\<forall>room. CreateTransport send_direction None \<noteq> GetRouterRtpCapabilities room"
    by simp
  have not_auth: "\<forall>token org. CreateTransport send_direction None \<noteq> Authenticate token org"
    by simp
  note t = unauthenticated_kept_from_room_manager [OF reach reg nobody other, where now = 5
      and room = "''r''" and role_name = "''viewer''" and display = "''Ann''" and caps = None]
  from t have "roomManager (handleMessage example_auth example_connected ''c1''
        (CreateTransport send_direction None) 5) = roomManager example_connected"
    by blast
  then have c1: "roomManager (handleMessage example_auth example_connected ''c1''
        (CreateTransport send_direction None) 5)
      = \<lparr>rooms = [], sfuManager = example_sfu, calls = []\<rparr>"
    by (simp add: example_connected_roomManager)
  from t not_auth
  have "sent_to (handleMessage example_auth example_connected ''c1''
          (CreateTransport send_direction None) 5) ''c1'' = sent example_client
      \<or> (\<exists>message code.
            sent_to (handleMessage example_auth example_connected ''c1''
              (CreateTransport send_direction None) 5) ''c1''
            = sent example_client @ [ErrorEvent message code])"
    by blast
  with before have c2:
    "sent_to (handleMessage example_auth example_connected ''c1''
          (CreateTransport send_direction None) 5) ''c1'' = [Welcome ''c1'' 0]
      \<or> (\<exists>message code.
            sent_to (handleMessage example_auth example_connected ''c1''
              (CreateTransport send_direction None) 5) ''c1''
            = [Welcome ''c1'' 0, ErrorEvent message code])"
    by simp
  from t op
  have "sent_to (handleMessage example_auth example_connected ''c1''
        (JoinRoom ''r'' ''viewer'' ''Ann'' None) 5) ''c1''
      = sent example_client @ [ErrorEvent ''Not authenticated'' (Some ''NOT_AUTHENTICATED'')]"
    by blast
  with before have c3: "sent_to (handleMessage example_auth example_connected ''c1''
        (JoinRoom ''r'' ''viewer'' ''Ann'' None) 5) ''c1''
      = [Welcome ''c1'' 0, ErrorEvent ''Not authenticated'' (Some ''NOT_AUTHENTICATED'')]"
    by simp
  from nobody c1 c2 c3 show ?thesis by blast
qed

text \<open>
  The claim as the specification states it fails. The freshly connected client of the
  example, which has no user, sends \<open>produce\<close>: the reply is the \<open>NOT_IN_ROOM\<close> error, not
  an authentication error.
\<close>

theorem unauthenticated_produce_answered_not_in_room:
  "map_option user (map_of (clients example_connected) ''c1'') = Some None
   \<and> sent_to (handleMessage example_auth example_connected ''c1''
        (Produce ''t1'' video ''rtp'' None) 5) ''c1''
     = [Welcome ''c1'' 0, ErrorEvent ''Not in a room'' (Some ''NOT_IN_ROOM'')]"
  by (simp add: example_connected_client example_client_def new_client_def handleMessage_def
      handleProduce_def truthy_def sent_to_sendError)

text \<open>
  \<open>get-router-rtp-capabilities\<close> has no guard: from the same client it is served, through
  the room manager.
\<close>

lemma unauthenticated_capabilities_served:
  "calls (roomManager (handleMessage example_auth example_connected ''c1''
        (GetRouterRtpCapabilities ''room1'') 5))
     = [''getRouterRtpCapabilities'']
   \<and> sent_to (handleMessage example_auth example_connected ''c1''
        (GetRouterRtpCapabilities ''room1'') 5) ''c1''
     = [Welcome ''c1'' 0, RouterRtpCapabilities ''{}'']"
  by (simp add: example_connected_client example_connected_roomManager example_client_def
      new_client_def handleMessage_def handleGetRouterRtpCapabilities_def
      getRouterRtpCapabilities_def called_def sent_to_send)

section \<open>Disconnect and the rate limiters\<close>

lemma rl_consumed_delete:
  "rl_consumed (rl_delete limiter key) k now = (if k = key then 0 else rl_consumed limiter k now)"
  by (simp add: rl_consumed_def rl_get_def rl_delete_def delete_conv')

lemma rateLimiter_on_client [simp]: "rateLimiter (on_client cid f s) = rateLimiter s"
  by (simp add: on_client_def)

lemma rateLimiter_broadcastToRoom [simp]: "rateLimiter (broadcastToRoom room ex m s) = rateLimiter s"
  by (simp add: broadcastToRoom_def)

lemma rateLimiter_cleanupClientRoom [simp]: "rateLimiter (cleanupClientRoom s cid c) = rateLimiter s"
  by (simp add: cleanupClientRoom_def Let_def)

text \<open>
  Claim C6, as the code has it. \<open>reset(key)\<close> drops the key's record from the
  per-connection limiter and from the per-user limiter. On disconnect \<open>cleanupClient\<close>
  calls it for the connection's identifier and, when the connection has a user, for the
  user's identifier: both of these keys then have consumed nothing in either limiter, the
  user's counter included, and the counters of every other key are as before.
\<close>

theorem disconnect_resets_connection_and_user:
  "rl_consumed (messageLimiter (reset svc key)) k now
     = (if k = key then 0 else rl_consumed (messageLimiter svc) k now)
   \<and> rl_consumed (globalMessageLimiter (reset svc key)) k now
     = (if k = key then 0 else rl_consumed (globalMessageLimiter svc) k now)
   \<and> rl_consumed (messageLimiter (rateLimiter (cleanupClient s cid c))) k now
     = (if k = client_id c \<or> (\<exists>u. user c = Some u \<and> k = user_id u) then 0
        else rl_consumed (messageLimiter (rateLimiter s)) k now)
   \<and> rl_consumed (globalMessageLimiter (rateLimiter (cleanupClient s cid c))) k now
     = (if k = client_id c \<or> (\<exists>u. user c = Some u \<and> k = user_id u) then 0
        else rl_consumed (globalMessageLimiter (rateLimiter s)) k now)"
  by (cases "user c") (simp_all add: reset_def cleanupClient_def Let_def rl_consumed_delete)

theorem disconnect_resets_connection_and_user_witness:
  "rl_consumed (globalMessageLimiter (reset example_limiters ''u1'')) ''u2'' 5000 = 9
   \<and> rl_consumed (globalMessageLimiter (reset example_limiters ''u1'')) ''u1'' 5000 = 0
   \<and> rl_consumed (messageLimiter (rateLimiter
        (cleanupClient example_in_room ''c1'' (the (map_of (clients example_in_room) ''c1'')))))
        ''c1'' 5000 = 0
   \<and> rl_consumed (globalMessageLimiter (rateLimiter
        (cleanupClient example_in_room ''c1'' (the (map_of (clients example_in_room) ''c1'')))))
        ''u2'' 5000 = 9"
proof -
  let ?c = "the (map_of (clients example_in_room) ''c1'')"
  have v: "rl_consumed (globalMessageLimiter example_limiters) ''u2'' 5000 = 9"
    by (simp add: example_limiters_def rl_consumed_def rl_get_def)
  have lim: "rateLimiter example_in_room = example_limiters"
    by (simp add: example_in_room_def)
  have who: "client_id ?c = ''c1''" "user ?c = Some example_user"
    by (simp_all add: example_in_room_def new_client_def)
  from disconnect_resets_connection_and_user [of example_limiters "''u1''" "''u2''" 5000] v
  have a: "rl_consumed (globalMessageLimiter (reset example_limiters ''u1'')) ''u2'' 5000 = 9"
    by simp
  from disconnect_resets_connection_and_user [of example_limiters "''u1''" "''u1''" 5000]
  have b: "rl_consumed (globalMessageLimiter (reset example_limiters ''u1'')) ''u1'' 5000 = 0"
    by simp
  from disconnect_resets_connection_and_user [where s = example_in_room and cid = "''c1''"
      and c = ?c and k = "''c1''" and now = 5000] who
  have c: "rl_consumed (messageLimiter (rateLimiter (cleanupClient example_in_room ''c1'' ?c)))
      ''c1'' 5000 = 0"
    by simp
  from disconnect_resets_connection_and_user [where s = example_in_room and cid = "''c1''"
      and c = ?c and k = "''u2''" and now = 5000] who v lim
  have d: "rl_consumed (globalMessageLimiter (rateLimiter (cleanupClient example_in_room ''c1'' ?c)))
      ''u2'' 5000 = 9"
    by (simp add: example_user_def)
  from a b c d show ?thesis by blast
qed

text \<open>
  The claim as the specification states it fails. In the example, user \<open>u1\<close>, authenticated
  on connection \<open>c1\<close>, has used up the 500 points of the per-user window; the socket
  closes, and the user's counter is gone: 0 points consumed in the same window.
\<close>

theorem disconnect_clears_user_budget:
  "rl_consumed (globalMessageLimiter (rateLimiter example_in_room)) ''u1'' 5000 = 500
   \<and> rl_consumed (globalMessageLimiter (rateLimiter (on_close example_in_room ''c1''))) ''u1'' 5000
     = 0"
  by (simp add: example_in_room_def example_limiters_def example_user_def new_client_def
      on_close_def cleanupClient_def reset_def rl_delete_def rl_consumed_def rl_get_def Let_def)

section \<open>Leaving a room\<close>

lemma length_delete_present:
  "distinct (map fst al) \<Longrightarrow> k \<in> fst ` set al \<Longrightarrow> length (AList.delete k al) = length al - 1"
proof (induction al)
  case Nil
  then show ?case by simp
next
  case (Cons p al)
  obtain a b where p: "p = (a, b)" by (cases p)
  show ?case
  proof (cases "a = k")
    case True
    with Cons.prems p have "k \<notin> fst ` set al" by auto
    then have "AList.delete k al = al" by simp
    with True p show ?thesis by simp
  next
    case False
    with Cons.prems p have d: "distinct (map fst al)" and k: "k \<in> fst ` set al" by auto
    from k have "al \<noteq> []" by auto
    with Cons.IH[OF d k] False p show ?thesis by (cases al) simp_all
  qed
qed

lemma leaveRoom_roster:
  "roster (leaveRoom rm room p) room = AList.delete p (roster rm room)"
  by (auto simp: roster_def leaveRoom_def called_def Let_def update_conv' delete_conv'
      split: option.splits)

lemma leaveRoom_other_roster:
  "room' \<noteq> room \<Longrightarrow> roster (leaveRoom rm room p) room' = roster rm room'"
  by (auto simp: roster_def leaveRoom_def called_def Let_def update_conv' delete_conv'
      split: option.splits)

lemma leaveRoom_releases:
  assumes "map_of (rooms rm) room \<noteq> None" and "AList.delete p (roster rm room) = []"
  shows "map_of (rooms (leaveRoom rm room p)) room = None
     \<and> getRoomRouter (redisService (sfuManager (leaveRoom rm room p))) room = None"
proof -
  from assms(1) obtain r where r: "map_of (rooms rm) room = Some r" by blast
  with assms(2) have empty: "AList.delete p (participants r) = []" by (simp add: roster_def)
  have "getRoomRouter (deleteRoomRouter (redisService (sfuManager rm)) room) room = None"
    by (simp add: getRoomRouter_def deleteRoomRouter_def delete_conv' split: option.splits)
  with r empty show ?thesis
    by (simp add: leaveRoom_def called_def Let_def releaseRoom_def delete_conv')
qed

lemma closeProducer_roster:
  "roster (closeProducer rm room i) room
     = map (\<lambda>(k, q). (k, q\<lparr>producers := AList.delete i (producers q)\<rparr>)) (roster rm room)"
  by (simp add: roster_def closeProducer_def called_def Let_def map_of_map_entry_same
      split: option.splits)

lemma closeProducers_roster:
  "roster (foldl (\<lambda>rm i. closeProducer rm room i) rm ids) room
     = map (\<lambda>(k, q). (k, q\<lparr>producers := foldl (\<lambda>al i. AList.delete i al) (producers q) ids\<rparr>))
         (roster rm room)"
proof (induction ids arbitrary: rm)
  case Nil
  show ?case by (simp add: case_prod_unfold)
next
  case (Cons i ids)
  show ?case
    by (simp add: Cons.IH closeProducer_roster case_prod_unfold comp_def)
qed

lemma cleanupClientRoom_roster:
  assumes "truthy (roomId c)" and "truthy (participantId c)"
  shows "roster (roomManager (cleanupClientRoom s cid c)) (the (roomId c))
     = AList.delete (the (participantId c))
         (map (\<lambda>(k, q). (k, q\<lparr>producers :=
                 foldl (\<lambda>al i. AList.delete i al) (producers q) (producerIds c)\<rparr>))
            (roster (roomManager s) (the (roomId c))))"
proof -
  have "roomManager (cleanupClientRoom s cid c)
      = leaveRoom (foldl (\<lambda>rm i. closeProducer rm (the (roomId c)) i) (roomManager s) (producerIds c))
          (the (roomId c)) (the (participantId c))"
    using assms by (simp add: cleanupClientRoom_def Let_def on_client_def broadcastToRoom_def)
  then show ?thesis by (simp add: leaveRoom_roster closeProducers_roster)
qed

lemma deletes_absent:
  "\<forall>i \<in> set ids. i \<notin> fst ` set al \<Longrightarrow> foldl (\<lambda>al i. AList.delete i al) al ids = al"
  by (induction ids arbitrary: al) simp_all

lemma delete_map_others:
  assumes "\<And>k q. (k, q) \<in> set al \<Longrightarrow> k \<noteq> p \<Longrightarrow> f q = q"
  shows "AList.delete p (map (\<lambda>(k, q). (k, f q)) al) = AList.delete p al"
  using assms
proof (induction al)
  case Nil
  show ?case by simp
next
  case (Cons e al)
  obtain k q where e: "e = (k, q)" by (cases e)
  have rest: "AList.delete p (map (\<lambda>(k, q). (k, f q)) al) = AList.delete p al"
  proof (rule Cons.IH)
    fix k' q'
    assume "(k', q') \<in> set al" and "k' \<noteq> p"
    then show "f q' = q'" using Cons.prems[of k' q'] by simp
  qed
  show ?case
  proof (cases "k = p")
    case True
    with e rest show ?thesis by simp
  next
    case False
    with Cons.prems[of k q] e have "f q = q" by simp
    with False e rest show ?thesis by simp
  qed
qed

text \<open>
  What \<open>leaveRoom(r, p)\<close> does, when no other call runs between its parts: it deletes
  \<open>p\<close>'s entry, with the producers and consumers it holds, from the roster of \<open>r\<close> and
  touches no other room. So, for a roster with distinct keys that has \<open>p\<close>, the roster is
  one shorter, \<open>p\<close> is gone and every other participant's entry is what it was. If the
  roster of an existing room becomes empty, the room is dropped from the directory and its
  placement record is deleted from the coordination store. The cleanup on disconnect does
  the same to the roster when no other participant of the room holds a producer
  identifier recorded on the connection.
\<close>

lemma leaveRoom_removes_one_entry:
  "roster (leaveRoom rm room p) room = AList.delete p (roster rm room)
   \<and> (room' \<noteq> room \<longrightarrow> roster (leaveRoom rm room p) room' = roster rm room')
   \<and> (distinct (map fst (roster rm room)) \<and> p \<in> fst ` set (roster rm room) \<longrightarrow>
        length (roster (leaveRoom rm room p) room) = length (roster rm room) - 1
        \<and> map_of (roster (leaveRoom rm room p) room) p = None
        \<and> (\<forall>q. q \<noteq> p \<longrightarrow>
              map_of (roster (leaveRoom rm room p) room) q = map_of (roster rm room) q))
   \<and> (map_of (rooms rm) room \<noteq> None \<and> AList.delete p (roster rm room) = [] \<longrightarrow>
        map_of (rooms (leaveRoom rm room p)) room = None
        \<and> getRoomRouter (redisService (sfuManager (leaveRoom rm room p))) room = None)
   \<and> (truthy (roomId c) \<and> truthy (participantId c)
        \<and> (\<forall>(k, q) \<in> set (roster (roomManager s) (the (roomId c))).
               k \<noteq> the (participantId c) \<longrightarrow>
               (\<forall>i \<in> set (producerIds c). i \<notin> fst ` set (producers q))) \<longrightarrow>
        roster (roomManager (cleanupClientRoom s cid c)) (the (roomId c))
          = AList.delete (the (participantId c)) (roster (roomManager s) (the (roomId c))))"
proof (intro conjI impI)
  show "roster (leaveRoom rm room p) room = AList.delete p (roster rm room)"
    by (rule leaveRoom_roster)
next
  assume "room' \<noteq> room"
  then show "roster (leaveRoom rm room p) room' = roster rm room'"
    by (rule leaveRoom_other_roster)
next
  assume a: "distinct (map fst (roster rm room)) \<and> p \<in> fst ` set (roster rm room)"
  then show "length (roster (leaveRoom rm room p) room) = length (roster rm room) - 1"
    by (simp add: leaveRoom_roster length_delete_present)
  show "map_of (roster (leaveRoom rm room p) room) p = None"
    by (simp add: leaveRoom_roster delete_conv')
  show "\<forall>q. q \<noteq> p \<longrightarrow>
      map_of (roster (leaveRoom rm room p) room) q = map_of (roster rm room) q"
    by (simp add: leaveRoom_roster delete_conv')
next
  assume a: "map_of (rooms rm) room \<noteq> None \<and> AList.delete p (roster rm room) = []"
  with leaveRoom_releases[of rm room p]
  show "map_of (rooms (leaveRoom rm room p)) room = None"
    and "getRoomRouter (redisService (sfuManager (leaveRoom rm room p))) room = None"
    by blast+
next
  assume a: "truthy (roomId c) \<and> truthy (participantId c)
        \<and> (\<forall>(k, q) \<in> set (roster (roomManager s) (the (roomId c))).
               k \<noteq> the (participantId c) \<longrightarrow>
               (\<forall>i \<in> set (producerIds c). i \<notin> fst ` set (producers q)))"
  then have own: "\<And>k q. (k, q) \<in> set (roster (roomManager s) (the (roomId c))) \<Longrightarrow>
      k \<noteq> the (participantId c) \<Longrightarrow> \<forall>i \<in> set (producerIds c). i \<notin> fst ` set (producers q)"
    by blast
  from a cleanupClientRoom_roster[of c s cid]
  have "roster (roomManager (cleanupClientRoom s cid c)) (the (roomId c))
      = AList.delete (the (participantId c))
          (map (\<lambda>(k, q). (k, q\<lparr>producers :=
                  foldl (\<lambda>al i. AList.delete i al) (producers q) (producerIds c)\<rparr>))
             (roster (roomManager s) (the (roomId c))))"
    by blast
  also have "\<dots> = AList.delete (the (participantId c)) (roster (roomManager s) (the (roomId c)))"
    by (rule delete_map_others) (simp add: own deletes_absent)
  finally show "roster (roomManager (cleanupClientRoom s cid c)) (the (roomId c))
          = AList.delete (the (participantId c)) (roster (roomManager s) (the (roomId c)))" .
qed

lemmas run_defs = gateway_run_def on_message_def handleMessage_def handleConnection_def
  handleAuthenticate_def handleJoinRoom_def handleProduce_def on_close_def cleanupClient_def
  cleanupClientRoom_def new_SignalingServer_def new_RateLimiterService_def
  DEFAULT_RATE_LIMIT_CONFIG_def new_client_def send_def sendError_def on_client_def
  socket_send_def broadcastToRoom_def set_add_def checkMessage_def rl_consume_def rl_get_def
  rl_res_def rl_delete_def reset_def truthy_def joinRoom_def room_for_join_def called_def
  leaveRoom_def closeProducer_def allocateRoom_def allocateRoom_resume_def releaseRoom_def getRoomRouter_def
  setRoomRouter_def deleteRoomRouter_def getBestNode_def port_string_def decimal.simps
  getParticipants_def participant_info_def produce_def with_participant_def kind_string_def
  roster_def Let_def

text \<open>
  Claim C7. Leaving a room, also through the cleanup on disconnect, removes the producers
  and consumers of the participant that leaves and changes no other participant's entry:
  this is what the cleanup misses. A client authenticates on connection \<open>c1\<close>, joins room
  \<open>r\<close> (participant \<open>p-u1-2\<close>), produces a video track, and sends \<open>join-room\<close> for \<open>r\<close>
  once more: the connection now stands for a new participant, \<open>p-u1-4\<close>, the earlier one
  stays in the roster, and the connection still lists the producer. When the socket
  closes, \<open>p-u1-4\<close>, which has no producer, leaves; the entry of the other participant,
  \<open>p-u1-2\<close>, has lost its producer, and stays in the roster of a room that no connection
  is in.
\<close>

theorem cleanup_changes_another_participant:
  "map_option participantId (map_of (clients (gateway_run example_auth example_connected
      [Received ''c1'' (Inr (Authenticate ''tok'' ''org'')) 1,
       Received ''c1'' (Inr (JoinRoom ''r'' ''host'' ''Ann'' None)) 2,
       Received ''c1'' (Inr (Produce ''t'' video ''rtp'' None)) 3,
       Received ''c1'' (Inr (JoinRoom ''r'' ''host'' ''Ann'' None)) 4])) ''c1'')
     = Some (Some ''p-u1-4'')
   \<and> map (\<lambda>(k, q). (k, map fst (producers q))) (roster (roomManager (gateway_run
      example_auth example_connected
      [Received ''c1'' (Inr (Authenticate ''tok'' ''org'')) 1,
       Received ''c1'' (Inr (JoinRoom ''r'' ''host'' ''Ann'' None)) 2,
       Received ''c1'' (Inr (Produce ''t'' video ''rtp'' None)) 3,
       Received ''c1'' (Inr (JoinRoom ''r'' ''host'' ''Ann'' None)) 4])) ''r'')
     = [(''p-u1-2'', [''producer-video-p-u1-2-3'']), (''p-u1-4'', [])]
   \<and> map (\<lambda>(k, q). (k, map fst (producers q))) (roster (roomManager (gateway_run
      example_auth example_connected
      [Received ''c1'' (Inr (Authenticate ''tok'' ''org'')) 1,
       Received ''c1'' (Inr (JoinRoom ''r'' ''host'' ''Ann'' None)) 2,
       Received ''c1'' (Inr (Produce ''t'' video ''rtp'' None)) 3,
       Received ''c1'' (Inr (JoinRoom ''r'' ''host'' ''Ann'' None)) 4,
       Closed ''c1''])) ''r'')
     = [(''p-u1-2'', [])]
   \<and> clients (gateway_run example_auth example_connected
      [Received ''c1'' (Inr (Authenticate ''tok'' ''org'')) 1,
       Received ''c1'' (Inr (JoinRoom ''r'' ''host'' ''Ann'' None)) 2,
       Received ''c1'' (Inr (Produce ''t'' video ''rtp'' None)) 3,
       Received ''c1'' (Inr (JoinRoom ''r'' ''host'' ''Ann'' None)) 4,
       Closed ''c1''])
     = []"
  by (simp add: example_connected_def example_auth_def example_sfu_def example_user_def
      run_defs)

end
